theory Spec2Isabelle
  imports Main
begin

section \<open>Python values\<close>

text \<open>
  The values \<^verbatim>\<open>json.loads\<close> can produce. A Python \<^verbatim>\<open>int\<close> is unbounded; a
  \<^verbatim>\<open>float\<close> is a sign, a significand and a binary exponent, or an infinity, or NaN (the
  decoder accepts \<^verbatim>\<open>Infinity\<close> and \<^verbatim>\<open>NaN\<close>). A \<^verbatim>\<open>dict\<close> is an association list in
  insertion order, looked up with \<open>map_of\<close>.
\<close>

datatype pyfloat = Finite bool nat int | Infinity bool | NaN

datatype pyval =
    PNone
  | PBool bool
  | PInt int
  | PFloat pyfloat
  | PStr string
  | PList "pyval list"
  | PDict "(string \<times> pyval) list"

type_synonym pydict = "(string \<times> pyval) list"

text \<open>\<^verbatim>\<open>d.get(k)\<close>: the value stored under \<open>k\<close>, \<^verbatim>\<open>None\<close> when the key is absent.\<close>

definition dict_get :: "pydict \<Rightarrow> string \<Rightarrow> pyval" where
  "dict_get d k = (case map_of d k of None \<Rightarrow> PNone | Some v \<Rightarrow> v)"

text \<open>\<^verbatim>\<open>set(d.keys())\<close>.\<close>

definition dict_keys :: "pydict \<Rightarrow> string set" where
  "dict_keys d = set (map fst d)"

text \<open>
  \<^verbatim>\<open>v == 0\<close>: true of the integer zero, of \<^verbatim>\<open>False\<close> (a \<^verbatim>\<open>bool\<close> is an \<^verbatim>\<open>int\<close>) and of
  a float zero of either sign; false of every other decoded value.
\<close>

fun eq_zero :: "pyval \<Rightarrow> bool" where
  "eq_zero (PInt i) = (i = 0)"
| "eq_zero (PBool b) = (\<not> b)"
| "eq_zero (PFloat (Finite s m e)) = (m = 0)"
| "eq_zero v = False"

section \<open>Python strings\<close>

text \<open>
  A \<open>char\<close> stands for a code point below 256. \<^verbatim>\<open>str.strip()\<close> removes the characters
  Python counts as whitespace from both ends: in this range the code points 9 to 13, 28 to
  32, 133 and 160. \<^verbatim>\<open>str.strip(chars)\<close> removes the characters of \<open>chars\<close> from both ends.
\<close>

definition isspace :: "char \<Rightarrow> bool" where
  "isspace c =
     (let n = (of_char c :: nat)
      in (9 \<le> n \<and> n \<le> 13) \<or> (28 \<le> n \<and> n \<le> 32) \<or> n = 133 \<or> n = 160)"

definition strip_where :: "(char \<Rightarrow> bool) \<Rightarrow> string \<Rightarrow> string" where
  "strip_where P s = rev (dropWhile P (rev (dropWhile P s)))"

definition strip :: "string \<Rightarrow> string" where
  "strip s = strip_where isspace s"

definition strip_chars :: "string \<Rightarrow> string \<Rightarrow> string" where
  "strip_chars chars s = strip_where (\<lambda>c. c \<in> set chars) s"

definition startswith :: "string \<Rightarrow> char \<Rightarrow> bool" where
  "startswith s c = (case s of [] \<Rightarrow> False | x # _ \<Rightarrow> x = c)"

section \<open>Exceptions, log lines and outbound calls\<close>

text \<open>
  The message of an exception the program raises itself, with the values it interpolates.
\<close>

datatype message =
    AIRTOP_API_KEY_is_not_set
  | AIRTABLE_API_KEY_is_not_set
  | Failed_to_create_session "string list option"
  | Failed_to_create_window
  | Failed_to_prompt_content string
  | Model_did_not_return_JSON string
  | Missing_keys_in_occupancy_JSON "string set"
  | Model_returned_0_for_all_occupancy_fields
  | Failed_to_obtain_occupancy_data_after_retries

text \<open>
  The exceptions of a run. \<open>ApiError\<close> is the automation client's error (status code and
  body), \<open>ReadTimeout\<close> is \<^verbatim>\<open>httpx.ReadTimeout\<close>, \<open>HTTPError\<close> any other
  \<^verbatim>\<open>httpx.HTTPError\<close>, \<open>RequestsHTTPError\<close> the \<^verbatim>\<open>requests.HTTPError\<close> of
  \<^verbatim>\<open>raise_for_status\<close> (with the status code), \<open>InvalidJSONError\<close> the one
  \<^verbatim>\<open>requests\<close> raises for a body it cannot serialise, \<open>OtherException\<close> any further
  subclass of \<^verbatim>\<open>Exception\<close> a library call may raise.
\<close>

datatype exn =
    RuntimeError message
  | ValueError message
  | JSONDecodeError
  | AttributeError
  | ApiError nat string
  | ReadTimeout
  | HTTPError
  | RequestsHTTPError nat
  | InvalidJSONError
  | OtherException string

datatype level = INFO | WARNING | ERROR

datatype logmsg =
    Created_Airtop_session "string option"
  | Created_window string
  | Running_page_query_attempt nat nat
  | Raw_model_response nat string
  | Attempt_model_returned_NO_DATA nat
  | Maximum_attempts_reached_with_NO_DATA
  | Attempt_model_returned_0_for_all nat
  | Airtop_API_Error nat string
  | Timed_out_talking_to_Airtop exn
  | HTTP_error_talking_to_Airtop exn
  | Terminating_Airtop_session
  | Error_terminating_session exn
  | No_occupancy_data_available
  | Occupancy_from_Cloudbeds pydict
  | Updating_Airtable pyval
  | Error_updating_Airtable exn string
  | Airtable_update_OK

text \<open>
  What a run does to the outside, in order: a log line, or a call of the automation
  client, of \<^verbatim>\<open>asyncio.sleep\<close> or of \<^verbatim>\<open>requests.patch\<close>, with the arguments that vary.
  The prompt text and the client's timeouts are constants and are left out.
\<close>

datatype event =
    Log level logmsg
  | AsyncAirtop string
  | Sessions_create string nat
  | Sessions_save_profile_on_termination "string option" string
  | Windows_create "string option" string
  | Sleep nat
  | Windows_page_query "string option" string
  | Sessions_terminate string
  | Requests_patch string "(string \<times> string) list" pyval

section \<open>The outside world of one run\<close>

text \<open>
  The responses of the automation service: \<open>s_errors\<close> is the \<^verbatim>\<open>errors\<close> attribute of the
  session response (\<open>None\<close> when it is absent or \<^verbatim>\<open>None\<close>), \<open>s_data\<close> the \<^verbatim>\<open>id\<close> of its
  \<^verbatim>\<open>data\<close> when there is one; \<open>w_data\<close> the \<^verbatim>\<open>window_id\<close> of the window's \<^verbatim>\<open>data\<close>;
  \<open>p_error\<close> the truthy \<^verbatim>\<open>error\<close> of a query response and \<open>p_data\<close> the
  \<^verbatim>\<open>model_response\<close> of its \<^verbatim>\<open>data\<close>.
\<close>

record session_response =
  s_errors :: "string list option"
  s_data :: "string option"

record window_response =
  w_data :: "string option"

record prompt_response =
  p_error :: "string option"
  p_data :: "string option"

record response =
  status_code :: nat
  text_body :: string

text \<open>
  One run sees the process environment and what each library call answers: an exception
  (\<open>Inl\<close>, or \<open>Some\<close> for a call without a result) or a value. \<open>page_query\<close> is indexed by
  the number of the call, which is the number of the attempt. \<open>json_loads\<close> is the standard
  decoder, \<open>None\<close> where it raises \<^verbatim>\<open>JSONDecodeError\<close>. \<open>send_patch\<close> is the exchange with
  the backend for a request body: a transport exception or the response.
\<close>

record world =
  environ :: "string \<Rightarrow> string option"
  new_AsyncAirtop :: "exn option"
  sessions_create :: "exn + session_response option"
  save_profile_on_termination :: "exn option"
  windows_create :: "exn + window_response"
  page_query :: "nat \<Rightarrow> exn + prompt_response"
  sessions_terminate :: "exn option"
  json_loads :: "string \<Rightarrow> pyval option"
  send_patch :: "pyval \<Rightarrow> exn + response"

type_synonym 'a traced = "(exn + 'a) \<times> event list"

text \<open>The events \<open>evs\<close> happen, then the computation \<open>r\<close> runs.\<close>

definition after :: "event list \<Rightarrow> 'a traced \<Rightarrow> 'a traced" where
  "after evs r = (fst r, evs @ snd r)"

section \<open>Configuration\<close>

definition getenv :: "world \<Rightarrow> string \<Rightarrow> string \<Rightarrow> string" where
  "getenv w name dflt = (case environ w name of None \<Rightarrow> dflt | Some v \<Rightarrow> v)"

definition AIRTOP_API_KEY :: "world \<Rightarrow> string" where
  "AIRTOP_API_KEY w = getenv w ''AIRTOP_API_KEY'' ''YOUR_API_KEY_HERE''"

definition CLOUDBEDS_PROFILE_NAME :: string where
  "CLOUDBEDS_PROFILE_NAME = ''Cloudbeds''"

definition CLOUDBEDS_DASHBOARD_URL :: string where
  "CLOUDBEDS_DASHBOARD_URL = ''https://hotels.cloudbeds.com/connect/310986#/dashboard''"

definition AIRTABLE_API_KEY :: "world \<Rightarrow> string" where
  "AIRTABLE_API_KEY w = getenv w ''AIRTABLE_API_KEY'' ''YOUR_AIRTABLE_API_KEY''"

definition AIRTABLE_BASE_ID :: string where
  "AIRTABLE_BASE_ID = ''appqstjfFNrdvbxIE''"

definition AIRTABLE_TABLE_NAME :: string where
  "AIRTABLE_TABLE_NAME = ''Occupancy''"

definition AIRTABLE_RECORD_ID :: string where
  "AIRTABLE_RECORD_ID = ''recUbCZSPvOPj10Rn''"

definition FIELD_AVAILABLE :: string where
  "FIELD_AVAILABLE = ''Available Units''"

definition FIELD_BOOKED :: string where
  "FIELD_BOOKED = ''Booked Units''"

definition FIELD_OOS :: string where
  "FIELD_OOS = ''Out of Service''"

definition FIELD_BLOCKED :: string where
  "FIELD_BLOCKED = ''Blocked Dates''"

section \<open>The Airtable backend\<close>

text \<open>
  \<^verbatim>\<open>Response.raise_for_status()\<close> of the \<^verbatim>\<open>requests\<close> library: it raises
  \<^verbatim>\<open>requests.HTTPError\<close> for a status code from 400 to 599 and returns otherwise.
\<close>

definition raise_for_status :: "response \<Rightarrow> exn option" where
  "raise_for_status resp =
     (if 400 \<le> status_code resp \<and> status_code resp < 600
      then Some (RequestsHTTPError (status_code resp)) else None)"

definition airtable_url :: string where
  "airtable_url =
     ''https://api.airtable.com/v0/'' @ AIRTABLE_BASE_ID @ ''/'' @ AIRTABLE_TABLE_NAME
       @ ''/'' @ AIRTABLE_RECORD_ID"

definition airtable_headers :: "world \<Rightarrow> (string \<times> string) list" where
  "airtable_headers w =
     [(''Authorization'', ''Bearer '' @ AIRTABLE_API_KEY w),
      (''Content-Type'', ''application/json'')]"

definition airtable_fields :: "pydict \<Rightarrow> pydict" where
  "airtable_fields occupancy =
     [(FIELD_AVAILABLE, dict_get occupancy ''available_units''),
      (FIELD_BOOKED, dict_get occupancy ''booked_units''),
      (FIELD_OOS, dict_get occupancy ''out_of_service''),
      (FIELD_BLOCKED, dict_get occupancy ''blocked_dates'')]"

definition airtable_payload :: "pydict \<Rightarrow> pyval" where
  "airtable_payload occupancy = PDict [(''fields'', PDict (airtable_fields occupancy))]"

text \<open>
  \<^verbatim>\<open>requests.patch(url, headers=headers, json=payload)\<close>. The library first serialises the
  payload with \<^verbatim>\<open>json.dumps(payload, allow_nan=False)\<close>, which refuses a float that is NaN
  or an infinity (values the decoder of the extraction accepts); the call then raises
  \<^verbatim>\<open>InvalidJSONError\<close> and nothing is sent. Otherwise the request goes out with that body
  and the call gives what the exchange gives.
\<close>

fun isfinite :: "pyfloat \<Rightarrow> bool" where
  "isfinite (Finite s m e) = True"
| "isfinite f = False"

fun dumps_allowed :: "pyval \<Rightarrow> bool" where
  "dumps_allowed (PFloat f) = isfinite f"
| "dumps_allowed (PList vs) = list_all dumps_allowed vs"
| "dumps_allowed (PDict kvs) = list_all dumps_allowed (map snd kvs)"
| "dumps_allowed v = True"

definition requests_patch :: "world \<Rightarrow> pyval \<Rightarrow> exn + response" where
  "requests_patch w payload =
     (if dumps_allowed payload then send_patch w payload else Inl InvalidJSONError)"

definition update_airtable :: "world \<Rightarrow> pydict \<Rightarrow> unit traced" where
  "update_airtable w occupancy =
     (if AIRTABLE_API_KEY w = [] \<or> AIRTABLE_API_KEY w = ''YOUR_AIRTABLE_API_KEY''
      then (Inl (RuntimeError AIRTABLE_API_KEY_is_not_set), [])
      else
        after [Log INFO (Updating_Airtable (PDict (airtable_fields occupancy))),
               Requests_patch airtable_url (airtable_headers w) (airtable_payload occupancy)]
          (case requests_patch w (airtable_payload occupancy) of
             Inl e \<Rightarrow> (Inl e, [])
           | Inr resp \<Rightarrow>
               (case raise_for_status resp of
                  Some e \<Rightarrow> (Inl e, [Log ERROR (Error_updating_Airtable e (text_body resp))])
                | None \<Rightarrow> (Inr (), [Log INFO Airtable_update_OK]))))"

section \<open>The Airtop scrape\<close>

definition expected_keys :: "string list" where
  "expected_keys = [''available_units'', ''booked_units'', ''out_of_service'', ''blocked_dates'']"

text \<open>
  The retry loop \<^verbatim>\<open>for attempt in range(1, max_attempts + 1)\<close>, from the attempt
  \<open>attempt\<close> on; the last equation of the conditional is the \<^verbatim>\<open>raise\<close> after the loop.
\<close>

function attempts ::
  "world \<Rightarrow> string option \<Rightarrow> string \<Rightarrow> nat \<Rightarrow> nat \<Rightarrow> pydict option traced" where
  "attempts w session_id window_id max_attempts attempt =
     (if attempt \<le> max_attempts then
        after [Log INFO (Running_page_query_attempt attempt max_attempts),
               Windows_page_query session_id window_id]
          (case page_query w attempt of
             Inl e \<Rightarrow> (Inl e, [])
           | Inr prompt_response \<Rightarrow>
               (case p_error prompt_response of
                  Some err \<Rightarrow> (Inl (RuntimeError (Failed_to_prompt_content err)), [])
                | None \<Rightarrow>
                    (case p_data prompt_response of
                       None \<Rightarrow> (Inl AttributeError, [])
                     | Some raw \<Rightarrow>
                         after [Log INFO (Raw_model_response attempt raw)]
                           (let raw_stripped = strip raw;
                                normalized = strip (strip_chars [CHR 0x22, CHR 0x27] raw_stripped)
                            in
                              if normalized = ''NO_DATA'' then
                                after [Log WARNING (Attempt_model_returned_NO_DATA attempt)]
                                  (if attempt = max_attempts
                                   then (Inr None, [Log WARNING Maximum_attempts_reached_with_NO_DATA])
                                   else after [Sleep 5]
                                     (attempts w session_id window_id max_attempts (Suc attempt)))
                              else if \<not> startswith raw_stripped (CHR ''{'') then
                                (Inl (RuntimeError (Model_did_not_return_JSON raw_stripped)), [])
                              else
                                (case json_loads w raw_stripped of
                                   None \<Rightarrow> (Inl JSONDecodeError, [])
                                 | Some (PDict occupancy) \<Rightarrow>
                                     (let missing = set expected_keys - dict_keys occupancy
                                      in
                                        if missing \<noteq> {} then
                                          (Inl (ValueError (Missing_keys_in_occupancy_JSON missing)), [])
                                        else if list_all (\<lambda>k. eq_zero (dict_get occupancy k)) expected_keys then
                                          after [Log WARNING (Attempt_model_returned_0_for_all attempt)]
                                            (if attempt = max_attempts
                                             then (Inl (RuntimeError Model_returned_0_for_all_occupancy_fields), [])
                                             else after [Sleep 5]
                                               (attempts w session_id window_id max_attempts (Suc attempt)))
                                        else (Inr (Some occupancy), []))
                                 | Some _ \<Rightarrow> (Inl AttributeError, []))))))
      else (Inl (RuntimeError Failed_to_obtain_occupancy_data_after_retries), []))"
  by pat_completeness auto
termination
  by (relation "measure (\<lambda>(w, session_id, window_id, max_attempts, attempt). Suc max_attempts - attempt)") auto

text \<open>
  The body of the \<^verbatim>\<open>try\<close>. Beside its outcome it gives what the \<^verbatim>\<open>finally\<close> clause reads:
  whether \<^verbatim>\<open>client\<close> was bound, and \<^verbatim>\<open>session_id\<close>.
\<close>

definition try_body :: "world \<Rightarrow> bool \<times> string option \<times> pydict option traced" where
  "try_body w =
     (case new_AsyncAirtop w of
        Some e \<Rightarrow> (False, None, (Inl e, [AsyncAirtop (AIRTOP_API_KEY w)]))
      | None \<Rightarrow>
          (case sessions_create w of
             Inl e \<Rightarrow>
               (True, None,
                (Inl e, [AsyncAirtop (AIRTOP_API_KEY w), Sessions_create CLOUDBEDS_PROFILE_NAME 10]))
           | Inr None \<Rightarrow>
               (True, None,
                (Inl (RuntimeError (Failed_to_create_session None)),
                 [AsyncAirtop (AIRTOP_API_KEY w), Sessions_create CLOUDBEDS_PROFILE_NAME 10]))
           | Inr (Some session) \<Rightarrow>
               (if s_errors session \<noteq> None \<and> s_errors session \<noteq> Some [] then
                  (True, None,
                   (Inl (RuntimeError (Failed_to_create_session (s_errors session))),
                    [AsyncAirtop (AIRTOP_API_KEY w), Sessions_create CLOUDBEDS_PROFILE_NAME 10]))
                else
                  (let session_id = s_data session
                   in
                     (True, session_id,
                      after [AsyncAirtop (AIRTOP_API_KEY w),
                             Sessions_create CLOUDBEDS_PROFILE_NAME 10,
                             Log INFO (Created_Airtop_session session_id),
                             Sessions_save_profile_on_termination session_id CLOUDBEDS_PROFILE_NAME]
                        (case save_profile_on_termination w of
                           Some e \<Rightarrow> (Inl e, [])
                         | None \<Rightarrow>
                             after [Windows_create session_id CLOUDBEDS_DASHBOARD_URL]
                               (case windows_create w of
                                  Inl e \<Rightarrow> (Inl e, [])
                                | Inr window \<Rightarrow>
                                    (case w_data window of
                                       None \<Rightarrow> (Inl (RuntimeError Failed_to_create_window), [])
                                     | Some window_id \<Rightarrow>
                                         after [Log INFO (Created_window window_id), Sleep 5]
                                           (attempts w session_id window_id 3 1)))))))))"

text \<open>The three \<^verbatim>\<open>except\<close> clauses: each logs an error and raises the exception again.\<close>

fun except_clauses :: "exn + 'a \<Rightarrow> event list" where
  "except_clauses (Inl (ApiError status body)) = [Log ERROR (Airtop_API_Error status body)]"
| "except_clauses (Inl ReadTimeout) = [Log ERROR (Timed_out_talking_to_Airtop ReadTimeout)]"
| "except_clauses (Inl HTTPError) = [Log ERROR (HTTP_error_talking_to_Airtop HTTPError)]"
| "except_clauses r = []"

text \<open>
  The \<^verbatim>\<open>finally\<close> clause: the session is terminated when a client and a session id exist;
  an exception of the termination is logged and dropped.
\<close>

definition finally_clause :: "world \<Rightarrow> bool \<Rightarrow> string option \<Rightarrow> event list" where
  "finally_clause w client session_id =
     (case session_id of
        None \<Rightarrow> []
      | Some sid \<Rightarrow>
          (if client then
             [Log INFO Terminating_Airtop_session, Sessions_terminate sid]
               @ (case sessions_terminate w of
                    None \<Rightarrow> []
                  | Some e \<Rightarrow> [Log WARNING (Error_terminating_session e)])
           else []))"

definition fetch_occupancy_from_cloudbeds :: "world \<Rightarrow> pydict option traced" where
  "fetch_occupancy_from_cloudbeds w =
     (if AIRTOP_API_KEY w = [] \<or> AIRTOP_API_KEY w = ''AIRTOP_API_KEY''
      then (Inl (RuntimeError AIRTOP_API_KEY_is_not_set), [])
      else
        (case try_body w of
           (client, session_id, r, evs) \<Rightarrow>
             (r, evs @ except_clauses r @ finally_clause w client session_id)))"

section \<open>Main\<close>

definition main :: "world \<Rightarrow> unit traced" where
  "main w =
     (case fetch_occupancy_from_cloudbeds w of
        (Inl e, evs) \<Rightarrow> (Inl e, evs)
      | (Inr None, evs) \<Rightarrow> (Inr (), evs @ [Log WARNING No_occupancy_data_available])
      | (Inr (Some occupancy), evs) \<Rightarrow>
          after (evs @ [Log INFO (Occupancy_from_Cloudbeds occupancy)])
            (update_airtable w occupancy))"

section \<open>Vocabulary of the properties\<close>

text \<open>
  The response text of an attempt, when the query returned one without an error:
  \<open>normalized\<close> is the text the sentinel test reads, \<open>decoded_object\<close> the dictionary of a
  response that begins with an opening brace once stripped and that the decoder turns into
  an object.
\<close>

definition normalized :: "string \<Rightarrow> string" where
  "normalized raw = strip (strip_chars [CHR 0x22, CHR 0x27] (strip raw))"

definition response_text :: "world \<Rightarrow> nat \<Rightarrow> string option" where
  "response_text w a =
     (case page_query w a of
        Inl e \<Rightarrow> None
      | Inr pr \<Rightarrow> (case p_error pr of Some err \<Rightarrow> None | None \<Rightarrow> p_data pr))"

definition decoded_object :: "world \<Rightarrow> string \<Rightarrow> pydict option" where
  "decoded_object w raw =
     (if startswith (strip raw) (CHR ''{'') then
        (case json_loads w (strip raw) of Some (PDict d) \<Rightarrow> Some d | _ \<Rightarrow> None)
      else None)"

text \<open>The two tests the loop makes on a decoded object.\<close>

definition has_expected_keys :: "pydict \<Rightarrow> bool" where
  "has_expected_keys d = list_all (\<lambda>k. k \<in> dict_keys d) expected_keys"

definition all_zero :: "pydict \<Rightarrow> bool" where
  "all_zero d = list_all (\<lambda>k. eq_zero (dict_get d k)) expected_keys"

text \<open>
  What attempt \<open>a\<close> answers: the sentinel; an object with the four keys and four zeros;
  one of these two, which the loop retries; or an object \<open>d\<close> with the four keys and a
  value that is not zero, which the loop returns.
\<close>

definition sentinel_at :: "world \<Rightarrow> nat \<Rightarrow> bool" where
  "sentinel_at w a =
     (case response_text w a of None \<Rightarrow> False | Some raw \<Rightarrow> normalized raw = ''NO_DATA'')"

definition all_zero_at :: "world \<Rightarrow> nat \<Rightarrow> bool" where
  "all_zero_at w a =
     (case response_text w a of
        None \<Rightarrow> False
      | Some raw \<Rightarrow>
          (case decoded_object w raw of
             None \<Rightarrow> False
           | Some d \<Rightarrow> has_expected_keys d \<and> all_zero d))"

definition retryable_at :: "world \<Rightarrow> nat \<Rightarrow> bool" where
  "retryable_at w a = (sentinel_at w a \<or> all_zero_at w a)"

definition accepted_at :: "world \<Rightarrow> nat \<Rightarrow> pydict \<Rightarrow> bool" where
  "accepted_at w a d =
     (case response_text w a of
        None \<Rightarrow> False
      | Some raw \<Rightarrow> decoded_object w raw = Some d \<and> has_expected_keys d \<and> \<not> all_zero d)"

text \<open>
  The set-up of a run succeeds: the key passes the guard, the client is built, the session
  response has no errors (its id, if any, is \<open>session_id\<close>), the profile request succeeds
  and the window is created with the id \<open>window_id\<close>. \<open>setup_events\<close> is what the run has
  done by then, the settle delay included.
\<close>

definition setup_succeeds :: "world \<Rightarrow> string option \<Rightarrow> string \<Rightarrow> bool" where
  "setup_succeeds w session_id window_id =
     (AIRTOP_API_KEY w \<noteq> [] \<and> AIRTOP_API_KEY w \<noteq> ''AIRTOP_API_KEY''
      \<and> new_AsyncAirtop w = None
      \<and> (case sessions_create w of
            Inr (Some session) \<Rightarrow>
              (s_errors session = None \<or> s_errors session = Some [])
                \<and> s_data session = session_id
          | _ \<Rightarrow> False)
      \<and> save_profile_on_termination w = None
      \<and> (case windows_create w of
            Inr window \<Rightarrow> w_data window = Some window_id
          | _ \<Rightarrow> False))"

definition setup_events :: "world \<Rightarrow> string option \<Rightarrow> string \<Rightarrow> event list" where
  "setup_events w session_id window_id =
     [AsyncAirtop (AIRTOP_API_KEY w),
      Sessions_create CLOUDBEDS_PROFILE_NAME 10,
      Log INFO (Created_Airtop_session session_id),
      Sessions_save_profile_on_termination session_id CLOUDBEDS_PROFILE_NAME,
      Windows_create session_id CLOUDBEDS_DASHBOARD_URL,
      Log INFO (Created_window window_id),
      Sleep 5]"

text \<open>The events of attempt \<open>a\<close> up to the log line of the raw response.\<close>

definition attempt_events :: "string option \<Rightarrow> string \<Rightarrow> nat \<Rightarrow> nat \<Rightarrow> string \<Rightarrow> event list" where
  "attempt_events sid wid m a raw =
     [Log INFO (Running_page_query_attempt a m), Windows_page_query sid wid,
      Log INFO (Raw_model_response a raw)]"

text \<open>
  The session id the \<^verbatim>\<open>finally\<close> clause finds: the one of the session response, once the
  key guard is passed, the client is built and the response carries no errors.
\<close>

definition obtained_session_id :: "world \<Rightarrow> string option" where
  "obtained_session_id w =
     (if AIRTOP_API_KEY w = [] \<or> AIRTOP_API_KEY w = ''AIRTOP_API_KEY'' then None
      else
        (case new_AsyncAirtop w of
           Some e \<Rightarrow> None
         | None \<Rightarrow>
             (case sessions_create w of
                Inr (Some session) \<Rightarrow>
                  (if s_errors session \<noteq> None \<and> s_errors session \<noteq> Some [] then None
                   else s_data session)
              | _ \<Rightarrow> None)))"

text \<open>The kinds of event the properties count in a trace.\<close>

fun is_page_query :: "event \<Rightarrow> bool" where
  "is_page_query (Windows_page_query sid wid) = True"
| "is_page_query e = False"

fun is_sleep :: "event \<Rightarrow> bool" where
  "is_sleep (Sleep n) = True"
| "is_sleep e = False"

fun is_query_or_sleep :: "event \<Rightarrow> bool" where
  "is_query_or_sleep (Windows_page_query sid wid) = True"
| "is_query_or_sleep (Sleep n) = True"
| "is_query_or_sleep e = False"

fun is_terminate :: "event \<Rightarrow> bool" where
  "is_terminate (Sessions_terminate sid) = True"
| "is_terminate e = False"

fun is_patch :: "event \<Rightarrow> bool" where
  "is_patch (Requests_patch url headers payload) = True"
| "is_patch e = False"

text \<open>
  The wire contract in the words of the specification: exactly the four keys, each with
  an integer value.
\<close>

fun is_integer :: "pyval \<Rightarrow> bool" where
  "is_integer (PInt i) = True"
| "is_integer v = False"

definition spec_wire_contract :: "pydict \<Rightarrow> bool" where
  "spec_wire_contract d =
     (dict_keys d = set expected_keys \<and> list_all (\<lambda>k. is_integer (dict_get d k)) expected_keys)"

section \<open>Example runs\<close>

text \<open>
  Response texts and the dictionaries the decoder makes of them: a reading, an all-zero
  reading, a reading with a fifth key, a reading with a string for a number, and an
  object with two keys only. \<open>example_loads\<close> is the decoder on these texts.
\<close>

definition reading_text :: string where
  \<open>reading_text =
     ''{"available_units":28,"booked_units":8,"out_of_service":3,"blocked_dates":2}''\<close>

definition reading :: pydict where
  "reading =
     [(''available_units'', PInt 28), (''booked_units'', PInt 8),
      (''out_of_service'', PInt 3), (''blocked_dates'', PInt 2)]"

definition zero_text :: string where
  \<open>zero_text =
     ''{"available_units":0,"booked_units":0,"out_of_service":0,"blocked_dates":0}''\<close>

definition zero_reading :: pydict where
  "zero_reading =
     [(''available_units'', PInt 0), (''booked_units'', PInt 0),
      (''out_of_service'', PInt 0), (''blocked_dates'', PInt 0)]"

definition extra_text :: string where
  \<open>extra_text =
     ''{"available_units":28,"booked_units":8,"out_of_service":3,"blocked_dates":2,"occupancy":"28.57%"}''\<close>

definition extra_reading :: pydict where
  "extra_reading =
     [(''available_units'', PInt 28), (''booked_units'', PInt 8),
      (''out_of_service'', PInt 3), (''blocked_dates'', PInt 2),
      (''occupancy'', PStr ''28.57%'')]"

definition worded_text :: string where
  \<open>worded_text =
     ''{"available_units":28,"booked_units":"eight","out_of_service":3,"blocked_dates":2}''\<close>

definition worded_reading :: pydict where
  "worded_reading =
     [(''available_units'', PInt 28), (''booked_units'', PStr ''eight''),
      (''out_of_service'', PInt 3), (''blocked_dates'', PInt 2)]"

text \<open>A dictionary the decoder gives for a text with \<^verbatim>\<open>NaN\<close> in the place of a number.\<close>

definition nan_reading :: pydict where
  "nan_reading =
     [(''available_units'', PFloat NaN), (''booked_units'', PInt 8),
      (''out_of_service'', PInt 3), (''blocked_dates'', PInt 2)]"

definition short_text :: string where
  \<open>short_text = ''{"available_units":28,"booked_units":8}''\<close>

definition short_reading :: pydict where
  "short_reading = [(''available_units'', PInt 28), (''booked_units'', PInt 8)]"

definition example_loads :: "string \<Rightarrow> pyval option" where
  "example_loads s =
     (if s = reading_text then Some (PDict reading)
      else if s = zero_text then Some (PDict zero_reading)
      else if s = extra_text then Some (PDict extra_reading)
      else if s = worded_text then Some (PDict worded_reading)
      else if s = short_text then Some (PDict short_reading)
      else None)"

text \<open>
  A run in which both keys are set, every call of the automation service succeeds, attempt
  \<open>n\<close> answers the text \<open>answers n\<close> and the \<^verbatim>\<open>PATCH\<close> is answered with status 200.
\<close>

definition example_world :: "(nat \<Rightarrow> string) \<Rightarrow> world" where
  "example_world answers =
     \<lparr>environ = [''AIRTOP_API_KEY'' \<mapsto> ''sk-live'', ''AIRTABLE_API_KEY'' \<mapsto> ''pat-live''],
      new_AsyncAirtop = None,
      sessions_create = Inr (Some \<lparr>s_errors = None, s_data = Some ''session-1''\<rparr>),
      save_profile_on_termination = None,
      windows_create = Inr \<lparr>w_data = Some ''window-1''\<rparr>,
      page_query = (\<lambda>n. Inr \<lparr>p_error = None, p_data = Some (answers n)\<rparr>),
      sessions_terminate = None,
      json_loads = example_loads,
      send_patch = (\<lambda>body. Inr \<lparr>status_code = 200, text_body = ''{}''\<rparr>)\<rparr>"

text \<open>
  Scenario A of the specification (the sentinel, then a reading) and scenario B (the
  sentinel on every attempt); then runs whose attempts answer all zeros, prose after a
  sentinel, and an object that lacks two keys.
\<close>

definition scenario_A :: world where
  "scenario_A = example_world (\<lambda>n. if n = 1 then ''NO_DATA'' else reading_text)"

definition scenario_B :: world where
  "scenario_B = example_world (\<lambda>n. ''NO_DATA'')"

definition world_zero :: world where
  "world_zero = example_world (\<lambda>n. zero_text)"

definition world_prose :: world where
  "world_prose = example_world (\<lambda>n. if n = 1 then ''NO_DATA'' else ''28 available'')"

definition world_short :: world where
  "world_short = example_world (\<lambda>n. short_text)"

definition world_extra :: world where
  "world_extra = example_world (\<lambda>n. extra_text)"

definition world_worded :: world where
  "world_worded = example_world (\<lambda>n. worded_text)"

text \<open>
  Runs in which something else differs: no \<^verbatim>\<open>AIRTOP_API_KEY\<close> in the environment and a
  service that refuses the session; a service that is unavailable; a termination request
  that fails; a \<^verbatim>\<open>PATCH\<close> answered with 304, and one answered with 422.
\<close>

definition world_key_absent :: world where
  "world_key_absent =
     (example_world (\<lambda>n. reading_text))
       \<lparr>environ := Map.empty, sessions_create := Inl (ApiError 401 ''Unauthorized'')\<rparr>"

definition world_no_session :: world where
  "world_no_session =
     (example_world (\<lambda>n. reading_text))
       \<lparr>sessions_create := Inl (ApiError 503 ''Service Unavailable'')\<rparr>"

definition world_terminate_fails :: world where
  "world_terminate_fails =
     scenario_B\<lparr>sessions_terminate := Some (OtherException ''connection reset'')\<rparr>"

definition world_not_modified :: world where
  "world_not_modified =
     scenario_A\<lparr>send_patch := (\<lambda>body. Inr \<lparr>status_code = 304, text_body = []\<rparr>)\<rparr>"

definition world_unprocessable :: world where
  \<open>world_unprocessable =
     scenario_A\<lparr>send_patch :=
       (\<lambda>body. Inr \<lparr>status_code = 422, text_body = ''{"error":"INVALID_VALUE_FOR_COLUMN"}''\<rparr>)\<rparr>\<close>

section \<open>The retry loop, one attempt at a time\<close>

declare attempts.simps [simp del]

lemma response_textD:
  "response_text w a = Some raw \<Longrightarrow>
     \<exists>pr. page_query w a = Inr pr \<and> p_error pr = None \<and> p_data pr = Some raw"
  by (auto simp: response_text_def split: sum.splits option.splits)

lemma dropWhile_keeps_last:
  "xs \<noteq> [] \<Longrightarrow> \<not> P (last xs) \<Longrightarrow> dropWhile P xs \<noteq> [] \<and> last (dropWhile P xs) = last xs"
  by (induction xs) (auto split: if_splits)

lemma strip_where_keeps_head:
  assumes "\<not> P c"
  shows "\<exists>t. strip_where P (c # s) = c # t"
proof -
  define ys where "ys = dropWhile P (rev (c # s))"
  have d: "dropWhile P (c # s) = c # s" using assms by simp
  from dropWhile_keeps_last[of "rev (c # s)" P] assms
  have k: "ys \<noteq> []" "last ys = c"
    by (simp_all add: ys_def)
  then have "rev ys \<noteq> []" "hd (rev ys) = c"
    by (simp_all add: hd_rev)
  then obtain t where "rev ys = c # t"
    by (cases "rev ys") auto
  then show ?thesis
    unfolding strip_where_def d ys_def by blast
qed

lemma brace_not_sentinel:
  assumes "startswith (strip raw) (CHR ''{'')"
  shows "normalized raw \<noteq> ''NO_DATA''"
proof -
  from assms obtain s where s: "strip raw = CHR ''{'' # s"
    by (auto simp: startswith_def split: list.splits)
  have "\<not> (\<lambda>c. c \<in> set [CHR 0x22, CHR 0x27]) (CHR ''{'')" by simp
  from strip_where_keeps_head[where P = "\<lambda>c. c \<in> set [CHR 0x22, CHR 0x27]", OF this]
  obtain t where t: "strip_chars [CHR 0x22, CHR 0x27] (CHR ''{'' # s) = CHR ''{'' # t"
    unfolding strip_chars_def by blast
  have "\<not> isspace (CHR ''{'')" by (simp add: isspace_def)
  from strip_where_keeps_head[where P = isspace, OF this]
  obtain u where "strip (CHR ''{'' # t) = CHR ''{'' # u"
    unfolding strip_def by blast
  then show ?thesis by (simp add: normalized_def s t)
qed


lemma attempts_sentinel_retry:
  assumes "a < m" "response_text w a = Some raw" "normalized raw = ''NO_DATA''"
  shows "attempts w sid wid m a =
     after (attempt_events sid wid m a raw
              @ [Log WARNING (Attempt_model_returned_NO_DATA a), Sleep 5])
       (attempts w sid wid m (Suc a))"
proof -
  from response_textD[OF assms(2)] obtain pr where
    pr: "page_query w a = Inr pr" "p_error pr = None" "p_data pr = Some raw" by blast
  show ?thesis
    using assms(1,3) pr
    by (subst attempts.simps) (simp add: after_def normalized_def attempt_events_def)
qed

lemma attempts_sentinel_last:
  assumes "response_text w m = Some raw" "normalized raw = ''NO_DATA''"
  shows "attempts w sid wid m m =
     (Inr None, attempt_events sid wid m m raw
         @ [Log WARNING (Attempt_model_returned_NO_DATA m),
            Log WARNING Maximum_attempts_reached_with_NO_DATA])"
proof -
  from response_textD[OF assms(1)] obtain pr where
    pr: "page_query w m = Inr pr" "p_error pr = None" "p_data pr = Some raw" by blast
  show ?thesis
    using assms(2) pr
    by (subst attempts.simps) (simp add: after_def normalized_def attempt_events_def)
qed

lemma decoded_objectD:
  "decoded_object w raw = Some d \<Longrightarrow>
     startswith (strip raw) (CHR ''{'') \<and> json_loads w (strip raw) = Some (PDict d)
       \<and> normalized raw \<noteq> ''NO_DATA''"
  by (auto simp: decoded_object_def brace_not_sentinel split: if_splits option.splits pyval.splits)

lemma missing_empty_iff:
  "(set expected_keys - dict_keys d = {}) = has_expected_keys d"
  by (auto simp: has_expected_keys_def list_all_iff)

lemma attempts_zero_retry:
  assumes "a < m" "response_text w a = Some raw" "decoded_object w raw = Some d"
    "has_expected_keys d" "all_zero d"
  shows "attempts w sid wid m a =
     after (attempt_events sid wid m a raw
              @ [Log WARNING (Attempt_model_returned_0_for_all a), Sleep 5])
       (attempts w sid wid m (Suc a))"
proof -
  from response_textD[OF assms(2)] obtain pr where
    pr: "page_query w a = Inr pr" "p_error pr = None" "p_data pr = Some raw" by blast
  note dd = decoded_objectD[OF assms(3)]
  have n: "strip (strip_chars [CHR 0x22, CHR 0x27] (strip raw)) \<noteq> ''NO_DATA''"
    using dd by (simp add: normalized_def)
  have z: "list_all (\<lambda>k. eq_zero (dict_get d k)) expected_keys"
    using assms(5) by (simp add: all_zero_def)
  have k: "set expected_keys - dict_keys d = {}"
    using assms(4) missing_empty_iff[of d] by blast
  show ?thesis
    using assms(1) pr dd n z k
    by (subst attempts.simps) (simp add: after_def attempt_events_def)
qed

lemma attempts_zero_last:
  assumes "response_text w m = Some raw" "decoded_object w raw = Some d"
    "has_expected_keys d" "all_zero d"
  shows "attempts w sid wid m m =
     (Inl (RuntimeError Model_returned_0_for_all_occupancy_fields),
      attempt_events sid wid m m raw @ [Log WARNING (Attempt_model_returned_0_for_all m)])"
proof -
  from response_textD[OF assms(1)] obtain pr where
    pr: "page_query w m = Inr pr" "p_error pr = None" "p_data pr = Some raw" by blast
  note dd = decoded_objectD[OF assms(2)]
  have n: "strip (strip_chars [CHR 0x22, CHR 0x27] (strip raw)) \<noteq> ''NO_DATA''"
    using dd by (simp add: normalized_def)
  have z: "list_all (\<lambda>k. eq_zero (dict_get d k)) expected_keys"
    using assms(4) by (simp add: all_zero_def)
  have k: "set expected_keys - dict_keys d = {}"
    using assms(3) missing_empty_iff[of d] by blast
  show ?thesis
    using pr dd n z k
    by (subst attempts.simps) (simp add: after_def attempt_events_def)
qed

lemma attempts_accept:
  assumes "a \<le> m" "response_text w a = Some raw" "decoded_object w raw = Some d"
    "has_expected_keys d" "\<not> all_zero d"
  shows "attempts w sid wid m a = (Inr (Some d), attempt_events sid wid m a raw)"
proof -
  from response_textD[OF assms(2)] obtain pr where
    pr: "page_query w a = Inr pr" "p_error pr = None" "p_data pr = Some raw" by blast
  note dd = decoded_objectD[OF assms(3)]
  have n: "strip (strip_chars [CHR 0x22, CHR 0x27] (strip raw)) \<noteq> ''NO_DATA''"
    using dd by (simp add: normalized_def)
  have z: "\<not> list_all (\<lambda>k. eq_zero (dict_get d k)) expected_keys"
    using assms(5) by (simp add: all_zero_def)
  have k: "set expected_keys - dict_keys d = {}"
    using assms(4) missing_empty_iff[of d] by blast
  show ?thesis
    using assms(1) pr dd n z k
    by (subst attempts.simps) (simp add: after_def attempt_events_def)
qed

lemma attempts_not_json:
  assumes "a \<le> m" "response_text w a = Some raw" "normalized raw \<noteq> ''NO_DATA''"
    "\<not> startswith (strip raw) (CHR ''{'')"
  shows "attempts w sid wid m a =
     (Inl (RuntimeError (Model_did_not_return_JSON (strip raw))), attempt_events sid wid m a raw)"
proof -
  from response_textD[OF assms(2)] obtain pr where
    pr: "page_query w a = Inr pr" "p_error pr = None" "p_data pr = Some raw" by blast
  have n: "strip (strip_chars [CHR 0x22, CHR 0x27] (strip raw)) \<noteq> ''NO_DATA''"
    using assms(3) by (simp add: normalized_def)
  show ?thesis
    using assms(1,4) pr n
    by (subst attempts.simps) (simp add: after_def attempt_events_def)
qed

lemma attempts_missing_keys:
  assumes "a \<le> m" "response_text w a = Some raw" "decoded_object w raw = Some d"
    "\<not> has_expected_keys d"
  shows "attempts w sid wid m a =
     (Inl (ValueError (Missing_keys_in_occupancy_JSON (set expected_keys - dict_keys d))),
      attempt_events sid wid m a raw)"
proof -
  from response_textD[OF assms(2)] obtain pr where
    pr: "page_query w a = Inr pr" "p_error pr = None" "p_data pr = Some raw" by blast
  note dd = decoded_objectD[OF assms(3)]
  have n: "strip (strip_chars [CHR 0x22, CHR 0x27] (strip raw)) \<noteq> ''NO_DATA''"
    using dd by (simp add: normalized_def)
  have k: "set expected_keys - dict_keys d \<noteq> {}"
    using assms(4) missing_empty_iff[of d] by blast
  show ?thesis
    using assms(1) pr dd n k
    by (subst attempts.simps) (simp add: after_def attempt_events_def)
qed

lemma attempts_retry:
  assumes "a < m" "retryable_at w a"
  shows "\<exists>raw lg. attempts w sid wid m a =
     after (attempt_events sid wid m a raw @ [Log WARNING lg, Sleep 5])
       (attempts w sid wid m (Suc a))"
proof (cases "sentinel_at w a")
  case True
  then obtain raw where "response_text w a = Some raw" "normalized raw = ''NO_DATA''"
    by (auto simp: sentinel_at_def split: option.splits)
  from attempts_sentinel_retry[OF assms(1) this] show ?thesis by blast
next
  case False
  with assms(2) have "all_zero_at w a" by (simp add: retryable_at_def)
  then obtain raw d where "response_text w a = Some raw" "decoded_object w raw = Some d"
    "has_expected_keys d" "all_zero d"
    by (auto simp: all_zero_at_def split: option.splits)
  from attempts_zero_retry[OF assms(1) this] show ?thesis by blast
qed

lemma after_after: "after xs (after ys r) = after (xs @ ys) r"
  by (simp add: after_def)

lemma after_Nil: "after [] r = r"
  by (simp add: after_def)

lemma attempts_skip:
  assumes "a \<le> k" "k \<le> m" "\<forall>j. a \<le> j \<and> j < k \<longrightarrow> retryable_at w j"
  shows "\<exists>evs. attempts w sid wid m a = after evs (attempts w sid wid m k)
           \<and> length (filter is_page_query evs) = k - a
           \<and> length (filter is_sleep evs) = k - a
           \<and> filter is_terminate evs = [] \<and> filter is_patch evs = []"
  using assms
proof (induction k rule: dec_induct)
  case base
  have "attempts w sid wid m a = after [] (attempts w sid wid m a)"
    by (simp add: after_Nil)
  then show ?case by force
next
  case (step n)
  then obtain evs where evs: "attempts w sid wid m a = after evs (attempts w sid wid m n)"
      "length (filter is_page_query evs) = n - a" "length (filter is_sleep evs) = n - a"
      "filter is_terminate evs = []" "filter is_patch evs = []"
    by force
  have "n < m" "retryable_at w n" using step by auto
  from attempts_retry[OF this] obtain raw lg where
    r: "attempts w sid wid m n =
         after (attempt_events sid wid m n raw @ [Log WARNING lg, Sleep 5])
           (attempts w sid wid m (Suc n))" by blast
  let ?evs = "evs @ attempt_events sid wid m n raw @ [Log WARNING lg, Sleep 5]"
  have "attempts w sid wid m a = after ?evs (attempts w sid wid m (Suc n))"
    by (simp add: evs(1) r after_after)
  moreover have "length (filter is_page_query ?evs) = Suc n - a"
    "length (filter is_sleep ?evs) = Suc n - a"
    "filter is_terminate ?evs = []" "filter is_patch ?evs = []"
    using evs(2-5) step.hyps by (simp_all add: attempt_events_def Suc_diff_le)
  ultimately show ?case by blast
qed


section \<open>The extraction around the loop\<close>

lemma try_body_after_setup:
  assumes "setup_succeeds w sid wid"
  shows "try_body w = (True, sid, after (setup_events w sid wid) (attempts w sid wid 3 1))"
  using assms
  by (auto simp: setup_succeeds_def try_body_def setup_events_def after_def Let_def
      split: sum.splits option.splits)

lemma fetch_after_setup:
  assumes "setup_succeeds w sid wid"
  shows "fetch_occupancy_from_cloudbeds w =
     (fst (attempts w sid wid 3 1),
      setup_events w sid wid @ snd (attempts w sid wid 3 1)
        @ except_clauses (fst (attempts w sid wid 3 1)) @ finally_clause w True sid)"
proof -
  have k: "\<not> (AIRTOP_API_KEY w = [] \<or> AIRTOP_API_KEY w = ''AIRTOP_API_KEY'')"
    using assms by (simp add: setup_succeeds_def)
  show ?thesis
    unfolding fetch_occupancy_from_cloudbeds_def try_body_after_setup[OF assms]
    using k by (simp add: after_def)
qed

section \<open>Every attempt either ends the loop or is retried\<close>

lemma attempts_no_text:
  assumes "a \<le> m" "response_text w a = None"
  shows "\<exists>e. attempts w sid wid m a =
     (Inl e, [Log INFO (Running_page_query_attempt a m), Windows_page_query sid wid])"
  using assms
  by (subst attempts.simps)
     (auto simp: response_text_def after_def split: sum.splits option.splits)

lemma attempts_not_object:
  assumes "a \<le> m" "response_text w a = Some raw" "normalized raw \<noteq> ''NO_DATA''"
    "startswith (strip raw) (CHR ''{'')" "decoded_object w raw = None"
  shows "\<exists>e. attempts w sid wid m a = (Inl e, attempt_events sid wid m a raw)"
proof -
  from response_textD[OF assms(2)] obtain pr where
    pr: "page_query w a = Inr pr" "p_error pr = None" "p_data pr = Some raw" by blast
  have n: "strip (strip_chars [CHR 0x22, CHR 0x27] (strip raw)) \<noteq> ''NO_DATA''"
    using assms(3) by (simp add: normalized_def)
  have j: "\<forall>d. json_loads w (strip raw) \<noteq> Some (PDict d)"
    using assms(4,5) by (auto simp: decoded_object_def split: option.splits pyval.splits)
  show ?thesis
  proof (cases "json_loads w (strip raw)")
    case None
    then show ?thesis
      using assms(1,4) pr n
      by (subst attempts.simps) (simp add: after_def attempt_events_def)
  next
    case (Some v)
    then show ?thesis
      using assms(1,4) pr n j
      by (subst attempts.simps) (cases v; simp add: after_def attempt_events_def)
  qed
qed

lemma attempts_past_end:
  "m < a \<Longrightarrow> attempts w sid wid m a =
     (Inl (RuntimeError Failed_to_obtain_occupancy_data_after_retries), [])"
  by (subst attempts.simps) simp

lemma attempt_events_clean:
  "filter is_terminate (attempt_events sid wid m a raw) = []"
  "filter is_patch (attempt_events sid wid m a raw) = []"
  by (simp_all add: attempt_events_def)

lemma attempts_step:
  assumes "a \<le> m"
  shows "(a < m \<and> (\<exists>evs. attempts w sid wid m a = after evs (attempts w sid wid m (Suc a))
            \<and> filter is_terminate evs = [] \<and> filter is_patch evs = []))
       \<or> (\<exists>r evs. attempts w sid wid m a = (r, evs)
            \<and> filter is_terminate evs = [] \<and> filter is_patch evs = []
            \<and> (\<forall>d. r = Inr (Some d) \<longrightarrow> accepted_at w a d))"
proof (cases "response_text w a")
  case None
  from attempts_no_text[OF assms None, of sid wid] show ?thesis by auto
next
  case (Some raw)
  show ?thesis
  proof (cases "normalized raw = ''NO_DATA''")
    case True
    show ?thesis
    proof (cases "a < m")
      case True
      from attempts_sentinel_retry[OF True Some \<open>normalized raw = ''NO_DATA''\<close>, of sid wid]
      show ?thesis using True by (auto simp: attempt_events_clean)
    next
      case False
      then have "a = m" using assms by simp
      with attempts_sentinel_last[OF _ True, of w m sid wid] Some
      show ?thesis by (auto simp: attempt_events_clean)
    qed
  next
    case nd: False
    show ?thesis
    proof (cases "startswith (strip raw) (CHR ''{'')")
      case False
      from attempts_not_json[OF assms Some nd False, of sid wid]
      show ?thesis by (auto simp: attempt_events_clean)
    next
      case br: True
      show ?thesis
      proof (cases "decoded_object w raw")
        case None
        from attempts_not_object[OF assms Some nd br None, of sid wid]
        show ?thesis by (auto simp: attempt_events_clean)
      next
        case (Some d)
        note dec = this
        show ?thesis
        proof (cases "has_expected_keys d")
          case False
          from attempts_missing_keys[OF assms \<open>response_text w a = Some raw\<close> dec False, of sid wid]
          show ?thesis by (auto simp: attempt_events_clean)
        next
          case hk: True
          show ?thesis
          proof (cases "all_zero d")
            case False
            from attempts_accept[OF assms \<open>response_text w a = Some raw\<close> dec hk False, of sid wid]
            show ?thesis
              using \<open>response_text w a = Some raw\<close> dec hk False
              by (auto simp: attempt_events_clean accepted_at_def)
          next
            case az: True
            show ?thesis
            proof (cases "a < m")
              case True
              from attempts_zero_retry[OF True \<open>response_text w a = Some raw\<close> dec hk az, of sid wid]
              show ?thesis using True by (auto simp: attempt_events_clean)
            next
              case False
              then have "a = m" using assms by simp
              with attempts_zero_last[OF _ dec hk az, of m sid wid]
                \<open>response_text w a = Some raw\<close>
              show ?thesis by (auto simp: attempt_events_clean)
            qed
          qed
        qed
      qed
    qed
  qed
qed

lemma attempts_trace_clean:
  "filter is_terminate (snd (attempts w sid wid m a)) = []
     \<and> filter is_patch (snd (attempts w sid wid m a)) = []"
proof (induction "Suc m - a" arbitrary: a)
  case 0
  then have "m < a" by simp
  then show ?case by (simp add: attempts_past_end)
next
  case (Suc n)
  then have le: "a \<le> m" and n: "n = Suc m - Suc a" by simp_all
  from attempts_step[OF le, of w sid wid] Suc.hyps(1)[OF n]
  show ?case by (auto simp: after_def)
qed

lemma attempts_returns:
  "fst (attempts w sid wid m a) = Inr (Some d) \<Longrightarrow> \<exists>k. a \<le> k \<and> k \<le> m \<and> accepted_at w k d"
proof (induction "Suc m - a" arbitrary: a)
  case 0
  then have "m < a" by simp
  with 0 show ?case by (simp add: attempts_past_end)
next
  case (Suc n)
  then have le: "a \<le> m" and n: "n = Suc m - Suc a" by simp_all
  from attempts_step[OF le, of w sid wid]
  show ?case
  proof
    assume "a < m \<and> (\<exists>evs. attempts w sid wid m a = after evs (attempts w sid wid m (Suc a))
            \<and> filter is_terminate evs = [] \<and> filter is_patch evs = [])"
    then have "fst (attempts w sid wid m (Suc a)) = Inr (Some d)"
      using Suc.prems by (auto simp: after_def)
    from Suc.hyps(1)[OF n this] obtain k where "Suc a \<le> k" "k \<le> m" "accepted_at w k d"
      by blast
    then show ?thesis by (intro exI[of _ k]) simp
  next
    assume "\<exists>r evs. attempts w sid wid m a = (r, evs)
            \<and> filter is_terminate evs = [] \<and> filter is_patch evs = []
            \<and> (\<forall>d. r = Inr (Some d) \<longrightarrow> accepted_at w a d)"
    then have "accepted_at w a d" using Suc.prems by auto
    then show ?thesis using le by blast
  qed
qed

section \<open>The no-data outcome\<close>

lemmas example_defs = example_world_def example_loads_def reading_text_def reading_def
  zero_text_def zero_reading_def extra_text_def extra_reading_def worded_text_def
  worded_reading_def short_text_def short_reading_def

lemmas eval_defs = setup_succeeds_def AIRTOP_API_KEY_def AIRTABLE_API_KEY_def getenv_def
  sentinel_at_def response_text_def normalized_def strip_def strip_chars_def strip_where_def
  isspace_def all_zero_at_def decoded_object_def startswith_def has_expected_keys_def
  all_zero_def expected_keys_def dict_keys_def dict_get_def retryable_at_def accepted_at_def

lemma fetch_no_patch: "filter is_patch (snd (fetch_occupancy_from_cloudbeds w)) = []"
proof -
  have e: "filter is_patch (except_clauses r) = []" for r :: "exn + pydict option"
    by (cases r rule: except_clauses.cases) simp_all
  have f: "filter is_patch (finally_clause w c s) = []" for c s
    by (simp add: finally_clause_def split: option.splits)
  have t: "filter is_patch (snd (snd (snd (try_body w)))) = []"
    using attempts_trace_clean[of w _ _ 3 1]
    by (simp add: try_body_def after_def Let_def split: sum.splits option.splits)
  show ?thesis
    using t by (auto simp: fetch_occupancy_from_cloudbeds_def e f split: prod.splits)
qed

lemma main_no_data:
  "fst (fetch_occupancy_from_cloudbeds w) = Inr None \<Longrightarrow>
     main w = (Inr (), snd (fetch_occupancy_from_cloudbeds w) @ [Log WARNING No_occupancy_data_available])"
  by (cases "fetch_occupancy_from_cloudbeds w") (simp add: main_def)

lemma main_reading:
  "fst (fetch_occupancy_from_cloudbeds w) = Inr (Some d) \<Longrightarrow>
     main w = after (snd (fetch_occupancy_from_cloudbeds w) @ [Log INFO (Occupancy_from_Cloudbeds d)])
                (update_airtable w d)"
  by (cases "fetch_occupancy_from_cloudbeds w") (simp add: main_def)

lemma main_raises:
  "fst (fetch_occupancy_from_cloudbeds w) = Inl e \<Longrightarrow>
     main w = (Inl e, snd (fetch_occupancy_from_cloudbeds w))"
  by (cases "fetch_occupancy_from_cloudbeds w") (simp add: main_def)

text \<open>
  Claim C2. When the set-up of the run succeeds and the response of each of the three
  attempts, stripped of whitespace and of surrounding quote characters, is \<^verbatim>\<open>NO_DATA\<close>,
  the extraction makes its three queries and returns \<^verbatim>\<open>None\<close> without raising; \<open>main\<close>
  then ends normally and no \<^verbatim>\<open>PATCH\<close> is sent.
\<close>

theorem sentinel_on_every_attempt_skips_update:
  assumes "setup_succeeds w sid wid"
    and "sentinel_at w 1" and "sentinel_at w 2" and "sentinel_at w 3"
  shows "fst (fetch_occupancy_from_cloudbeds w) = Inr None
       \<and> length (filter is_page_query (snd (fetch_occupancy_from_cloudbeds w))) = 3
       \<and> fst (main w) = Inr ()
       \<and> filter is_patch (snd (main w)) = []"
proof -
  from assms(2-4) obtain r1 r2 r3 where
    r: "response_text w 1 = Some r1" "normalized r1 = ''NO_DATA''"
       "response_text w 2 = Some r2" "normalized r2 = ''NO_DATA''"
       "response_text w 3 = Some r3" "normalized r3 = ''NO_DATA''"
    by (auto simp: sentinel_at_def split: option.splits)
  have a3: "attempts w sid wid 3 3 =
      (Inr None, attempt_events sid wid 3 3 r3
         @ [Log WARNING (Attempt_model_returned_NO_DATA 3),
            Log WARNING Maximum_attempts_reached_with_NO_DATA])"
    by (rule attempts_sentinel_last[OF r(5,6)])
  have a2: "attempts w sid wid 3 2 =
      after (attempt_events sid wid 3 2 r2
              @ [Log WARNING (Attempt_model_returned_NO_DATA 2), Sleep 5])
        (attempts w sid wid 3 3)"
    using attempts_sentinel_retry[OF _ r(3,4), of 3 sid wid] by (simp add: numeral_3_eq_3 numeral_2_eq_2)
  have a1: "attempts w sid wid 3 1 =
      after (attempt_events sid wid 3 1 r1
              @ [Log WARNING (Attempt_model_returned_NO_DATA 1), Sleep 5])
        (attempts w sid wid 3 2)"
    using attempts_sentinel_retry[OF _ r(1,2), of 3 sid wid] by (simp add: numeral_2_eq_2)
  have f: "fst (fetch_occupancy_from_cloudbeds w) = Inr None"
    by (simp add: fetch_after_setup[OF assms(1)] a1 a2 a3 after_def del: One_nat_def)
  have q: "length (filter is_page_query (snd (fetch_occupancy_from_cloudbeds w))) = 3"
    by (simp add: fetch_after_setup[OF assms(1)] a1 a2 a3 after_def setup_events_def
        attempt_events_def finally_clause_def del: One_nat_def split: option.splits)
  have m: "main w = (Inr (), snd (fetch_occupancy_from_cloudbeds w) @ [Log WARNING No_occupancy_data_available])"
    by (rule main_no_data[OF f])
  show ?thesis
    using f q m fetch_no_patch[of w] by simp
qed

theorem sentinel_on_every_attempt_skips_update_witness:
  "setup_succeeds scenario_B (Some ''session-1'') ''window-1''
     \<and> sentinel_at scenario_B 1 \<and> sentinel_at scenario_B 2 \<and> sentinel_at scenario_B 3
     \<and> fst (fetch_occupancy_from_cloudbeds scenario_B) = Inr None
     \<and> length (filter is_page_query (snd (fetch_occupancy_from_cloudbeds scenario_B))) = 3
     \<and> fst (main scenario_B) = Inr ()
     \<and> filter is_patch (snd (main scenario_B)) = []"
proof -
  have s: "setup_succeeds scenario_B (Some ''session-1'') ''window-1''"
    by (simp add: scenario_B_def example_defs eval_defs)
  have a: "sentinel_at scenario_B 1" "sentinel_at scenario_B 2" "sentinel_at scenario_B 3"
    by (simp_all add: scenario_B_def example_defs eval_defs)
  from sentinel_on_every_attempt_skips_update[OF s a] s a show ?thesis by simp
qed

section \<open>An accepted reading\<close>

lemma update_airtable_patches:
  assumes "AIRTABLE_API_KEY w \<noteq> []" "AIRTABLE_API_KEY w \<noteq> ''YOUR_AIRTABLE_API_KEY''"
  shows "filter is_patch (snd (update_airtable w d)) =
     [Requests_patch airtable_url (airtable_headers w) (airtable_payload d)]"
  using assms
  by (simp add: update_airtable_def after_def split: sum.splits option.splits)

lemma fetch_outcome_after_setup:
  assumes "setup_succeeds w sid wid"
  shows "fst (fetch_occupancy_from_cloudbeds w) = fst (attempts w sid wid 3 1)"
  by (simp add: fetch_after_setup[OF assms] del: One_nat_def)

lemma except_clauses_quiet:
  "filter is_page_query (except_clauses r) = []"
  "filter is_sleep (except_clauses r) = []"
  "filter is_terminate (except_clauses r) = []"
  by (cases r rule: except_clauses.cases; simp)+

lemma finally_clause_quiet:
  "filter is_page_query (finally_clause w c s) = []"
  "filter is_sleep (finally_clause w c s) = []"
  by (simp_all add: finally_clause_def split: option.splits)

lemma fetch_counts_after_setup:
  assumes "setup_succeeds w sid wid"
  shows "length (filter is_page_query (snd (fetch_occupancy_from_cloudbeds w))) =
           length (filter is_page_query (snd (attempts w sid wid 3 1)))"
    and "length (filter is_sleep (snd (fetch_occupancy_from_cloudbeds w))) =
           Suc (length (filter is_sleep (snd (attempts w sid wid 3 1))))"
  by (simp_all add: fetch_after_setup[OF assms] setup_events_def except_clauses_quiet
      finally_clause_quiet del: One_nat_def)

text \<open>
  Claim C1. When the set-up succeeds, the attempts before attempt \<open>k\<close> were retried
  (sentinel or all-zero) and the response of attempt \<open>k\<close> decodes to a JSON object \<open>d\<close>
  that has the four keys and a value that is not zero, the extraction returns \<open>d\<close> itself;
  \<open>main\<close> then calls the updater once, on \<open>d\<close>, and with a configured Airtable key
  exactly one \<^verbatim>\<open>PATCH\<close> is sent, its body the four values under the Airtable field names
  inside \<^verbatim>\<open>{"fields": ...}\<close>.
\<close>

theorem accepted_reading_passes_through_to_update:
  assumes "setup_succeeds w sid wid"
    and "1 \<le> k" and "k \<le> 3"
    and "\<forall>j. 1 \<le> j \<and> j < k \<longrightarrow> retryable_at w j"
    and "response_text w k = Some raw"
    and "decoded_object w raw = Some d"
    and "has_expected_keys d" and "\<not> all_zero d"
  shows "fst (fetch_occupancy_from_cloudbeds w) = Inr (Some d)
       \<and> main w =
           after (snd (fetch_occupancy_from_cloudbeds w) @ [Log INFO (Occupancy_from_Cloudbeds d)])
             (update_airtable w d)
       \<and> (AIRTABLE_API_KEY w \<noteq> [] \<and> AIRTABLE_API_KEY w \<noteq> ''YOUR_AIRTABLE_API_KEY'' \<longrightarrow>
            filter is_patch (snd (main w)) =
              [Requests_patch airtable_url (airtable_headers w)
                 (PDict [(''fields'',
                    PDict [(''Available Units'', dict_get d ''available_units''),
                           (''Booked Units'', dict_get d ''booked_units''),
                           (''Out of Service'', dict_get d ''out_of_service''),
                           (''Blocked Dates'', dict_get d ''blocked_dates'')])])])"
proof -
  from attempts_skip[OF assms(2,3,4), of sid wid] obtain evs where
    "attempts w sid wid 3 1 = after evs (attempts w sid wid 3 k)" by blast
  moreover have "attempts w sid wid 3 k = (Inr (Some d), attempt_events sid wid 3 k raw)"
    by (rule attempts_accept[OF assms(3,5,6,7,8)])
  ultimately have "fst (attempts w sid wid 3 1) = Inr (Some d)"
    by (simp add: after_def)
  then have f: "fst (fetch_occupancy_from_cloudbeds w) = Inr (Some d)"
    by (simp only: fetch_outcome_after_setup[OF assms(1)])
  note m = main_reading[OF f]
  have p: "filter is_patch (snd (main w)) = filter is_patch (snd (update_airtable w d))"
    by (simp add: m after_def fetch_no_patch)
  show ?thesis
    using f m p update_airtable_patches[of w d]
    by (simp add: airtable_payload_def airtable_fields_def FIELD_AVAILABLE_def FIELD_BOOKED_def
        FIELD_OOS_def FIELD_BLOCKED_def)
qed

theorem accepted_reading_passes_through_to_update_witness:
  "fst (fetch_occupancy_from_cloudbeds scenario_A) = Inr (Some reading)
     \<and> main scenario_A =
         after (snd (fetch_occupancy_from_cloudbeds scenario_A)
                  @ [Log INFO (Occupancy_from_Cloudbeds reading)])
           (update_airtable scenario_A reading)
     \<and> filter is_patch (snd (main scenario_A)) =
         [Requests_patch ''https://api.airtable.com/v0/appqstjfFNrdvbxIE/Occupancy/recUbCZSPvOPj10Rn''
            [(''Authorization'', ''Bearer pat-live''), (''Content-Type'', ''application/json'')]
            (PDict [(''fields'',
               PDict [(''Available Units'', PInt 28), (''Booked Units'', PInt 8),
                      (''Out of Service'', PInt 3), (''Blocked Dates'', PInt 2)])])]"
proof -
  have s: "setup_succeeds scenario_A (Some ''session-1'') ''window-1''"
    by (simp add: scenario_A_def example_defs eval_defs)
  have r: "\<forall>j. 1 \<le> j \<and> j < 2 \<longrightarrow> retryable_at scenario_A j"
  proof (intro allI impI)
    fix j :: nat assume "1 \<le> j \<and> j < 2"
    then have "j = 1" by simp
    then show "retryable_at scenario_A j"
      by (simp add: scenario_A_def example_defs eval_defs)
  qed
  have t: "response_text scenario_A 2 = Some reading_text"
    by (simp add: scenario_A_def example_world_def response_text_def)
  have d: "decoded_object scenario_A reading_text = Some reading"
    by (simp add: scenario_A_def example_defs eval_defs)
  have k: "has_expected_keys reading" "\<not> all_zero reading"
    by (simp_all add: reading_def eval_defs)
  have a: "AIRTABLE_API_KEY scenario_A = ''pat-live''"
    by (simp add: scenario_A_def example_world_def AIRTABLE_API_KEY_def getenv_def)
  have a': "AIRTABLE_API_KEY scenario_A \<noteq> [] \<and> AIRTABLE_API_KEY scenario_A \<noteq> ''YOUR_AIRTABLE_API_KEY''"
    by (simp add: a)
  have n: "(1::nat) \<le> 2" "(2::nat) \<le> 3" by simp_all
  note c = accepted_reading_passes_through_to_update[OF s n r t d k]
  from c have c1: "fst (fetch_occupancy_from_cloudbeds scenario_A) = Inr (Some reading)"
    by blast
  from c have c2: "main scenario_A =
         after (snd (fetch_occupancy_from_cloudbeds scenario_A)
                  @ [Log INFO (Occupancy_from_Cloudbeds reading)])
           (update_airtable scenario_A reading)"
    by blast
  from c a' have "filter is_patch (snd (main scenario_A)) =
              [Requests_patch airtable_url (airtable_headers scenario_A)
                 (PDict [(''fields'',
                    PDict [(''Available Units'', dict_get reading ''available_units''),
                           (''Booked Units'', dict_get reading ''booked_units''),
                           (''Out of Service'', dict_get reading ''out_of_service''),
                           (''Blocked Dates'', dict_get reading ''blocked_dates'')])])]"
    by blast
  then have c3: "filter is_patch (snd (main scenario_A)) =
         [Requests_patch ''https://api.airtable.com/v0/appqstjfFNrdvbxIE/Occupancy/recUbCZSPvOPj10Rn''
            [(''Authorization'', ''Bearer pat-live''), (''Content-Type'', ''application/json'')]
            (PDict [(''fields'',
               PDict [(''Available Units'', PInt 28), (''Booked Units'', PInt 8),
                      (''Out of Service'', PInt 3), (''Blocked Dates'', PInt 2)])])]"
    by (simp add: airtable_url_def airtable_headers_def AIRTABLE_BASE_ID_def
        AIRTABLE_TABLE_NAME_def AIRTABLE_RECORD_ID_def reading_def dict_get_def a)
  from c1 c2 c3 show ?thesis by blast
qed

section \<open>All-zero readings\<close>

lemma all_zero_atD:
  "all_zero_at w a \<Longrightarrow>
     \<exists>raw d. response_text w a = Some raw \<and> decoded_object w raw = Some d
             \<and> has_expected_keys d \<and> all_zero d"
  by (auto simp: all_zero_at_def split: option.splits)

lemma except_finally_no_query_or_sleep:
  "filter is_query_or_sleep (except_clauses r) = []"
  "filter is_query_or_sleep (finally_clause w c s) = []"
  by (cases r rule: except_clauses.cases; simp add: finally_clause_def split: option.splits)+

text \<open>
  Claim C3. When the set-up succeeds and each of the three attempts answers a JSON object
  with the four keys and four values equal to zero, the extraction queries, waits, queries,
  waits, queries and only then raises the all-zero error (the first wait of the trace is
  the settle delay). On any attempt \<open>a\<close> before the last one of a loop of \<open>m\<close> attempts
  such a response is logged, followed by a wait of five seconds and by attempt \<open>a + 1\<close>.
\<close>

theorem all_zero_raises_on_final_attempt_only:
  assumes "setup_succeeds w sid wid"
    and "all_zero_at w 1" and "all_zero_at w 2" and "all_zero_at w 3"
  shows "fst (fetch_occupancy_from_cloudbeds w) =
           Inl (RuntimeError Model_returned_0_for_all_occupancy_fields)
       \<and> filter is_query_or_sleep (snd (fetch_occupancy_from_cloudbeds w)) =
           [Sleep 5, Windows_page_query sid wid, Sleep 5, Windows_page_query sid wid,
            Sleep 5, Windows_page_query sid wid]
       \<and> (a < m \<and> all_zero_at w a \<longrightarrow>
            (\<exists>raw. attempts w sid' wid' m a =
               after (attempt_events sid' wid' m a raw
                        @ [Log WARNING (Attempt_model_returned_0_for_all a), Sleep 5])
                 (attempts w sid' wid' m (Suc a))))"
proof -
  from all_zero_atD[OF assms(2)] obtain r1 d1 where
    r1: "response_text w 1 = Some r1" "decoded_object w r1 = Some d1"
        "has_expected_keys d1" "all_zero d1" by blast
  from all_zero_atD[OF assms(3)] obtain r2 d2 where
    r2: "response_text w 2 = Some r2" "decoded_object w r2 = Some d2"
        "has_expected_keys d2" "all_zero d2" by blast
  from all_zero_atD[OF assms(4)] obtain r3 d3 where
    r3: "response_text w 3 = Some r3" "decoded_object w r3 = Some d3"
        "has_expected_keys d3" "all_zero d3" by blast
  have a3: "attempts w sid wid 3 3 =
      (Inl (RuntimeError Model_returned_0_for_all_occupancy_fields),
       attempt_events sid wid 3 3 r3 @ [Log WARNING (Attempt_model_returned_0_for_all 3)])"
    by (rule attempts_zero_last[OF r3])
  have a2: "attempts w sid wid 3 2 =
      after (attempt_events sid wid 3 2 r2
              @ [Log WARNING (Attempt_model_returned_0_for_all 2), Sleep 5])
        (attempts w sid wid 3 3)"
    using attempts_zero_retry[OF _ r2, of 3 sid wid] by (simp add: numeral_3_eq_3 numeral_2_eq_2)
  have a1: "attempts w sid wid 3 1 =
      after (attempt_events sid wid 3 1 r1
              @ [Log WARNING (Attempt_model_returned_0_for_all 1), Sleep 5])
        (attempts w sid wid 3 2)"
    using attempts_zero_retry[OF _ r1, of 3 sid wid] by (simp add: numeral_2_eq_2)
  have f: "fst (fetch_occupancy_from_cloudbeds w) =
           Inl (RuntimeError Model_returned_0_for_all_occupancy_fields)"
    by (simp add: fetch_after_setup[OF assms(1)] a1 a2 a3 after_def del: One_nat_def)
  have q: "filter is_query_or_sleep (snd (fetch_occupancy_from_cloudbeds w)) =
           [Sleep 5, Windows_page_query sid wid, Sleep 5, Windows_page_query sid wid,
            Sleep 5, Windows_page_query sid wid]"
    by (simp add: fetch_after_setup[OF assms(1)] a1 a2 a3 after_def setup_events_def
        attempt_events_def except_finally_no_query_or_sleep del: One_nat_def)
  have g: "\<exists>raw. attempts w sid' wid' m a =
               after (attempt_events sid' wid' m a raw
                        @ [Log WARNING (Attempt_model_returned_0_for_all a), Sleep 5])
                 (attempts w sid' wid' m (Suc a))"
    if "a < m" "all_zero_at w a"
  proof -
    from all_zero_atD[OF that(2)] obtain raw d where
      "response_text w a = Some raw" "decoded_object w raw = Some d"
      "has_expected_keys d" "all_zero d" by blast
    from attempts_zero_retry[OF that(1) this] show ?thesis by blast
  qed
  show ?thesis using f q g by blast
qed

theorem all_zero_raises_on_final_attempt_only_witness:
  "fst (fetch_occupancy_from_cloudbeds world_zero) =
       Inl (RuntimeError Model_returned_0_for_all_occupancy_fields)
     \<and> filter is_query_or_sleep (snd (fetch_occupancy_from_cloudbeds world_zero)) =
         [Sleep 5, Windows_page_query (Some ''session-1'') ''window-1'',
          Sleep 5, Windows_page_query (Some ''session-1'') ''window-1'',
          Sleep 5, Windows_page_query (Some ''session-1'') ''window-1'']
     \<and> (\<exists>raw. attempts world_zero (Some ''session-1'') ''window-1'' 3 1 =
           after (attempt_events (Some ''session-1'') ''window-1'' 3 1 raw
                    @ [Log WARNING (Attempt_model_returned_0_for_all 1), Sleep 5])
             (attempts world_zero (Some ''session-1'') ''window-1'' 3 (Suc 1)))"
proof -
  have s: "setup_succeeds world_zero (Some ''session-1'') ''window-1''"
    by (simp add: world_zero_def example_defs eval_defs)
  have z: "all_zero_at world_zero 1" "all_zero_at world_zero 2" "all_zero_at world_zero 3"
    by (simp_all add: world_zero_def example_defs eval_defs)
  have n: "(1::nat) < 3" by simp
  from all_zero_raises_on_final_attempt_only[OF s z, of 1 3 "Some ''session-1''" "''window-1''"]
    n z(1)
  show ?thesis by blast
qed

section \<open>Malformed responses\<close>

lemma fetch_counts_through_retries:
  assumes "setup_succeeds w sid wid" "1 \<le> k" "k \<le> 3"
    "\<forall>j. 1 \<le> j \<and> j < k \<longrightarrow> retryable_at w j"
    "attempts w sid wid 3 k = (r, attempt_events sid wid 3 k raw)"
  shows "fst (fetch_occupancy_from_cloudbeds w) = r"
    and "length (filter is_page_query (snd (fetch_occupancy_from_cloudbeds w))) = k"
    and "length (filter is_sleep (snd (fetch_occupancy_from_cloudbeds w))) = k"
proof -
  from attempts_skip[OF assms(2,3,4), of sid wid] obtain evs where
    e: "attempts w sid wid 3 1 = after evs (attempts w sid wid 3 k)"
      "length (filter is_page_query evs) = k - 1" "length (filter is_sleep evs) = k - 1"
    by blast
  have a: "attempts w sid wid 3 1 = (r, evs @ attempt_events sid wid 3 k raw)"
    by (simp only: e(1) assms(5) after_def fst_conv snd_conv)
  show "fst (fetch_occupancy_from_cloudbeds w) = r"
    by (simp only: fetch_outcome_after_setup[OF assms(1)] a fst_conv)
  show "length (filter is_page_query (snd (fetch_occupancy_from_cloudbeds w))) = k"
    using e(2) assms(2)
    by (simp add: fetch_counts_after_setup[OF assms(1)] a attempt_events_def del: One_nat_def)
  show "length (filter is_sleep (snd (fetch_occupancy_from_cloudbeds w))) = k"
    using e(3) assms(2)
    by (simp add: fetch_counts_after_setup[OF assms(1)] a attempt_events_def del: One_nat_def)
qed

text \<open>
  Claim C4. Let the set-up succeed, the attempts before attempt \<open>k\<close> be retried ones, and
  attempt \<open>k\<close> (any of the three, the first included) answer the text \<open>raw\<close>. If \<open>raw\<close> is
  not the sentinel (\<^verbatim>\<open>NO_DATA\<close>, possibly inside quotes and whitespace) and does not begin
  with an opening brace once stripped, the extraction raises the protocol-violation error;
  if it decodes to a JSON object that lacks one of the four keys, the extraction raises the
  missing-keys error. In both cases the run has made \<open>k\<close> queries and \<open>k\<close> waits (the
  settle delay and one backoff per earlier attempt): nothing is waited for or asked again
  after the malformed response.
\<close>

theorem malformed_response_is_fatal_at_once:
  assumes "setup_succeeds w sid wid"
    and "1 \<le> k" and "k \<le> 3"
    and "\<forall>j. 1 \<le> j \<and> j < k \<longrightarrow> retryable_at w j"
    and "response_text w k = Some raw"
  shows "(normalized raw \<noteq> ''NO_DATA'' \<and> \<not> startswith (strip raw) (CHR ''{'') \<longrightarrow>
            fst (fetch_occupancy_from_cloudbeds w) =
              Inl (RuntimeError (Model_did_not_return_JSON (strip raw)))
          \<and> length (filter is_page_query (snd (fetch_occupancy_from_cloudbeds w))) = k
          \<and> length (filter is_sleep (snd (fetch_occupancy_from_cloudbeds w))) = k)
       \<and> (decoded_object w raw = Some d \<and> \<not> has_expected_keys d \<longrightarrow>
            fst (fetch_occupancy_from_cloudbeds w) =
              Inl (ValueError (Missing_keys_in_occupancy_JSON (set expected_keys - dict_keys d)))
          \<and> length (filter is_page_query (snd (fetch_occupancy_from_cloudbeds w))) = k
          \<and> length (filter is_sleep (snd (fetch_occupancy_from_cloudbeds w))) = k)"
proof (intro conjI impI)
  assume h: "normalized raw \<noteq> ''NO_DATA'' \<and> \<not> startswith (strip raw) (CHR ''{'')"
  then have a: "attempts w sid wid 3 k =
      (Inl (RuntimeError (Model_did_not_return_JSON (strip raw))), attempt_events sid wid 3 k raw)"
    using attempts_not_json[OF assms(3,5), of sid wid] by blast
  note c = fetch_counts_through_retries[OF assms(1,2,3,4) a]
  show "fst (fetch_occupancy_from_cloudbeds w) =
              Inl (RuntimeError (Model_did_not_return_JSON (strip raw)))"
    by (rule c(1))
  show "length (filter is_page_query (snd (fetch_occupancy_from_cloudbeds w))) = k"
    by (rule c(2))
  show "length (filter is_sleep (snd (fetch_occupancy_from_cloudbeds w))) = k"
    by (rule c(3))
next
  assume h: "decoded_object w raw = Some d \<and> \<not> has_expected_keys d"
  then have a: "attempts w sid wid 3 k =
      (Inl (ValueError (Missing_keys_in_occupancy_JSON (set expected_keys - dict_keys d))),
       attempt_events sid wid 3 k raw)"
    using attempts_missing_keys[OF assms(3,5), of d sid wid] by blast
  note c = fetch_counts_through_retries[OF assms(1,2,3,4) a]
  show "fst (fetch_occupancy_from_cloudbeds w) =
              Inl (ValueError (Missing_keys_in_occupancy_JSON (set expected_keys - dict_keys d)))"
    by (rule c(1))
  show "length (filter is_page_query (snd (fetch_occupancy_from_cloudbeds w))) = k"
    by (rule c(2))
  show "length (filter is_sleep (snd (fetch_occupancy_from_cloudbeds w))) = k"
    by (rule c(3))
qed

theorem malformed_response_is_fatal_at_once_witness:
  "fst (fetch_occupancy_from_cloudbeds world_prose) =
       Inl (RuntimeError (Model_did_not_return_JSON ''28 available''))
     \<and> length (filter is_page_query (snd (fetch_occupancy_from_cloudbeds world_prose))) = 2
     \<and> length (filter is_sleep (snd (fetch_occupancy_from_cloudbeds world_prose))) = 2
     \<and> fst (fetch_occupancy_from_cloudbeds world_short) =
         Inl (ValueError (Missing_keys_in_occupancy_JSON {''out_of_service'', ''blocked_dates''}))
     \<and> length (filter is_page_query (snd (fetch_occupancy_from_cloudbeds world_short))) = 1
     \<and> length (filter is_sleep (snd (fetch_occupancy_from_cloudbeds world_short))) = 1"
proof -
  have s: "setup_succeeds world_prose (Some ''session-1'') ''window-1''"
    "setup_succeeds world_short (Some ''session-1'') ''window-1''"
    by (simp_all add: world_prose_def world_short_def example_defs eval_defs)
  have r2: "\<forall>j. 1 \<le> j \<and> j < 2 \<longrightarrow> retryable_at world_prose j"
  proof (intro allI impI)
    fix j :: nat assume "1 \<le> j \<and> j < 2"
    then have "j = 1" by simp
    then show "retryable_at world_prose j"
      by (simp add: world_prose_def example_defs eval_defs)
  qed
  have r1: "\<forall>j. 1 \<le> j \<and> j < 1 \<longrightarrow> retryable_at world_short j"
    by simp
  have t: "response_text world_prose 2 = Some ''28 available''"
    "response_text world_short 1 = Some short_text"
    by (simp_all add: world_prose_def world_short_def example_world_def response_text_def)
  have p: "normalized ''28 available'' \<noteq> ''NO_DATA'' \<and> \<not> startswith (strip ''28 available'') (CHR ''{'')"
    "strip ''28 available'' = ''28 available''"
    by (simp_all add: eval_defs)
  have d: "decoded_object world_short short_text = Some short_reading \<and> \<not> has_expected_keys short_reading"
    by (simp add: world_short_def example_defs eval_defs)
  have m: "set expected_keys - dict_keys short_reading = {''out_of_service'', ''blocked_dates''}"
    by (auto simp: short_reading_def expected_keys_def dict_keys_def)
  have n: "(1::nat) \<le> 2" "(2::nat) \<le> 3" "(1::nat) \<le> 1" "(1::nat) \<le> 3" by simp_all
  from malformed_response_is_fatal_at_once[OF s(1) n(1,2) r2 t(1)] p
  have c1: "fst (fetch_occupancy_from_cloudbeds world_prose) =
       Inl (RuntimeError (Model_did_not_return_JSON ''28 available''))
     \<and> length (filter is_page_query (snd (fetch_occupancy_from_cloudbeds world_prose))) = 2
     \<and> length (filter is_sleep (snd (fetch_occupancy_from_cloudbeds world_prose))) = 2"
    by metis
  from malformed_response_is_fatal_at_once[OF s(2) n(3,4) r1 t(2), of short_reading] d m
  have c2: "fst (fetch_occupancy_from_cloudbeds world_short) =
         Inl (ValueError (Missing_keys_in_occupancy_JSON {''out_of_service'', ''blocked_dates''}))
     \<and> length (filter is_page_query (snd (fetch_occupancy_from_cloudbeds world_short))) = 1
     \<and> length (filter is_sleep (snd (fetch_occupancy_from_cloudbeds world_short))) = 1"
    by metis
  from c1 c2 show ?thesis by blast
qed

section \<open>What a returned reading is\<close>

lemma fetch_returns_from_loop:
  assumes "fst (fetch_occupancy_from_cloudbeds w) = Inr (Some d)"
  shows "\<exists>sid wid. fst (attempts w sid wid 3 1) = Inr (Some d)"
  using assms
  by (auto simp: fetch_occupancy_from_cloudbeds_def try_body_def after_def Let_def
      split: if_splits sum.splits option.splits prod.splits)

lemma fetch_returns_accepted:
  assumes "fst (fetch_occupancy_from_cloudbeds w) = Inr (Some d)"
  shows "\<exists>k. 1 \<le> k \<and> k \<le> 3 \<and> accepted_at w k d"
proof -
  from fetch_returns_from_loop[OF assms] obtain sid wid where
    "fst (attempts w sid wid 3 1) = Inr (Some d)" by blast
  from attempts_returns[OF this] show ?thesis .
qed

lemma scenario_A_returns_reading:
  "fst (fetch_occupancy_from_cloudbeds scenario_A) = Inr (Some reading)"
proof -
  have s: "setup_succeeds scenario_A (Some ''session-1'') ''window-1''"
    by (simp add: scenario_A_def example_defs eval_defs)
  have t1: "response_text scenario_A 1 = Some ''NO_DATA''" "normalized ''NO_DATA'' = ''NO_DATA''"
    by (simp_all add: scenario_A_def example_world_def response_text_def eval_defs)
  have t: "response_text scenario_A 2 = Some reading_text"
    by (simp add: scenario_A_def example_world_def response_text_def)
  have d: "decoded_object scenario_A reading_text = Some reading"
    by (simp add: scenario_A_def example_defs eval_defs)
  have k: "has_expected_keys reading" "\<not> all_zero reading"
    by (simp_all add: reading_def eval_defs)
  have n: "(2::nat) \<le> 3" "(1::nat) < 3" by simp_all
  have "attempts scenario_A (Some ''session-1'') ''window-1'' 3 (Suc 1)
          = (Inr (Some reading), attempt_events (Some ''session-1'') ''window-1'' 3 (Suc 1) reading_text)"
    using attempts_accept[OF n(1) t d k] by (simp add: numeral_2_eq_2)
  then have "fst (attempts scenario_A (Some ''session-1'') ''window-1'' 3 1) = Inr (Some reading)"
    by (simp only: attempts_sentinel_retry[OF n(2) t1] after_def fst_conv)
  then show ?thesis
    by (simp only: fetch_outcome_after_setup[OF s])
qed

text \<open>
  Claim C5 (the code at the failing input). With \<^verbatim>\<open>AIRTOP_API_KEY\<close> absent from the
  environment the key is the placeholder \<^verbatim>\<open>YOUR_API_KEY_HERE\<close>; the guard compares it with
  the text \<^verbatim>\<open>AIRTOP_API_KEY\<close>, so no configuration error is raised: the client is built with
  the placeholder and a session is requested, and the run fails with the service's error.
\<close>

theorem absent_airtop_key_reaches_the_service:
  "AIRTOP_API_KEY world_key_absent = ''YOUR_API_KEY_HERE''
     \<and> fetch_occupancy_from_cloudbeds world_key_absent =
         (Inl (ApiError 401 ''Unauthorized''),
          [AsyncAirtop ''YOUR_API_KEY_HERE'', Sessions_create ''Cloudbeds'' 10,
           Log ERROR (Airtop_API_Error 401 ''Unauthorized'')])"
  by (simp add: world_key_absent_def example_world_def AIRTOP_API_KEY_def getenv_def
      fetch_occupancy_from_cloudbeds_def try_body_def finally_clause_def
      CLOUDBEDS_PROFILE_NAME_def)

text \<open>
  Claim C6 as stated fails: an object with a fifth key, and an object whose
  \<^verbatim>\<open>booked_units\<close> is a string, are both returned as readings.
\<close>

theorem loose_objects_are_accepted:
  "fst (fetch_occupancy_from_cloudbeds world_extra) = Inr (Some extra_reading)
     \<and> \<not> spec_wire_contract extra_reading
     \<and> fst (fetch_occupancy_from_cloudbeds world_worded) = Inr (Some worded_reading)
     \<and> \<not> spec_wire_contract worded_reading"
proof -
  have s: "setup_succeeds world_extra (Some ''session-1'') ''window-1''"
    "setup_succeeds world_worded (Some ''session-1'') ''window-1''"
    by (simp_all add: world_extra_def world_worded_def example_defs eval_defs)
  have t: "response_text world_extra 1 = Some extra_text"
    "response_text world_worded 1 = Some worded_text"
    by (simp_all add: world_extra_def world_worded_def example_world_def response_text_def)
  have d: "decoded_object world_extra extra_text = Some extra_reading"
    "decoded_object world_worded worded_text = Some worded_reading"
    by (simp_all add: world_extra_def world_worded_def example_defs eval_defs)
  have k: "has_expected_keys extra_reading" "\<not> all_zero extra_reading"
    "has_expected_keys worded_reading" "\<not> all_zero worded_reading"
    by (simp_all add: extra_reading_def worded_reading_def eval_defs)
  have n: "(1::nat) \<le> 3" by simp
  have a: "fst (attempts world_extra (Some ''session-1'') ''window-1'' 3 1) = Inr (Some extra_reading)"
    "fst (attempts world_worded (Some ''session-1'') ''window-1'' 3 1) = Inr (Some worded_reading)"
    by (simp_all only: attempts_accept[OF n t(1) d(1) k(1,2)]
        attempts_accept[OF n t(2) d(2) k(3,4)] fst_conv)
  have "''occupancy'' \<in> dict_keys extra_reading" "''occupancy'' \<notin> set expected_keys"
    by (simp_all add: extra_reading_def dict_keys_def expected_keys_def)
  then have "dict_keys extra_reading \<noteq> set expected_keys"
    by blast
  then have c1: "\<not> spec_wire_contract extra_reading"
    by (simp only: spec_wire_contract_def simp_thms)
  have "\<not> list_all (\<lambda>k. is_integer (dict_get worded_reading k)) expected_keys"
    by (simp add: worded_reading_def expected_keys_def dict_get_def)
  then have c2: "\<not> spec_wire_contract worded_reading"
    by (simp only: spec_wire_contract_def simp_thms)
  note c = c1 c2
  have f: "fst (fetch_occupancy_from_cloudbeds world_extra) = Inr (Some extra_reading)"
    "fst (fetch_occupancy_from_cloudbeds world_worded) = Inr (Some worded_reading)"
    by (simp_all only: fetch_outcome_after_setup[OF s(1)] fetch_outcome_after_setup[OF s(2)] a)
  from f c show ?thesis by blast
qed

text \<open>
  Claim C6, amended. A reading \<open>d\<close> is returned only when one of the three attempts
  answered a text that is not the sentinel, begins with an opening brace once stripped and
  is decoded to the JSON object \<open>d\<close>, and \<open>d\<close> has the four keys. Further keys and the
  types of the values are not examined.
\<close>

theorem reading_comes_from_a_json_object_with_the_keys:
  assumes "fst (fetch_occupancy_from_cloudbeds w) = Inr (Some d)"
  shows "\<exists>k raw. 1 \<le> k \<and> k \<le> 3 \<and> response_text w k = Some raw
           \<and> normalized raw \<noteq> ''NO_DATA''
           \<and> startswith (strip raw) (CHR ''{'')
           \<and> json_loads w (strip raw) = Some (PDict d)
           \<and> set expected_keys \<subseteq> dict_keys d"
proof -
  from fetch_returns_accepted[OF assms] obtain k where
    k: "1 \<le> k" "k \<le> 3" "accepted_at w k d" by blast
  then obtain raw where r: "response_text w k = Some raw" "decoded_object w raw = Some d"
    "has_expected_keys d"
    by (auto simp: accepted_at_def split: option.splits)
  from decoded_objectD[OF r(2)] r(3) k(1,2) r(1) show ?thesis
    by (auto simp: has_expected_keys_def list_all_iff)
qed

theorem reading_comes_from_a_json_object_with_the_keys_witness:
  "\<exists>k raw. 1 \<le> k \<and> k \<le> 3 \<and> response_text scenario_A k = Some raw
           \<and> normalized raw \<noteq> ''NO_DATA''
           \<and> startswith (strip raw) (CHR ''{'')
           \<and> json_loads scenario_A (strip raw) = Some (PDict reading)
           \<and> set expected_keys \<subseteq> dict_keys reading"
proof -
  note f = scenario_A_returns_reading
  from reading_comes_from_a_json_object_with_the_keys[OF f] show ?thesis .
qed

text \<open>
  Claim C8. Every reading the extraction returns has the four keys, and its four values
  are not all equal to zero.
\<close>

theorem returned_reading_has_keys_and_is_not_all_zero:
  assumes "fst (fetch_occupancy_from_cloudbeds w) = Inr (Some d)"
  shows "''available_units'' \<in> dict_keys d \<and> ''booked_units'' \<in> dict_keys d
       \<and> ''out_of_service'' \<in> dict_keys d \<and> ''blocked_dates'' \<in> dict_keys d
       \<and> \<not> (eq_zero (dict_get d ''available_units'') \<and> eq_zero (dict_get d ''booked_units'')
            \<and> eq_zero (dict_get d ''out_of_service'') \<and> eq_zero (dict_get d ''blocked_dates''))"
proof -
  from fetch_returns_accepted[OF assms] obtain k where "accepted_at w k d" by blast
  then have "has_expected_keys d" "\<not> all_zero d"
    by (auto simp: accepted_at_def split: option.splits)
  then show ?thesis
    by (simp add: has_expected_keys_def all_zero_def expected_keys_def)
qed

theorem returned_reading_has_keys_and_is_not_all_zero_witness:
  "fst (fetch_occupancy_from_cloudbeds scenario_A) = Inr (Some reading)
     \<and> ''available_units'' \<in> dict_keys reading \<and> ''booked_units'' \<in> dict_keys reading
     \<and> ''out_of_service'' \<in> dict_keys reading \<and> ''blocked_dates'' \<in> dict_keys reading
     \<and> \<not> (eq_zero (dict_get reading ''available_units'') \<and> eq_zero (dict_get reading ''booked_units'')
          \<and> eq_zero (dict_get reading ''out_of_service'') \<and> eq_zero (dict_get reading ''blocked_dates''))"
proof -
  note f = scenario_A_returns_reading
  from returned_reading_has_keys_and_is_not_all_zero[OF f] f show ?thesis by blast
qed

section \<open>Session termination\<close>

lemma attempts_frame:
  "attempts (w\<lparr>sessions_terminate := x\<rparr>) sid wid m a = attempts w sid wid m a"
proof (induction "Suc m - a" arbitrary: a)
  case 0
  then have "m < a" by simp
  then show ?case by (simp add: attempts_past_end)
next
  case (Suc n)
  then have le: "a \<le> m" and n: "n = Suc m - Suc a" by simp_all
  note IH = Suc.hyps(1)[OF n]
  show ?case
    by (subst (1 2) attempts.simps)
       (simp add: IH cong: if_cong sum.case_cong option.case_cong pyval.case_cong)
qed

lemma try_body_frame:
  "try_body (w\<lparr>sessions_terminate := x\<rparr>) = try_body w"
  by (simp add: try_body_def attempts_frame AIRTOP_API_KEY_def getenv_def
      cong: sum.case_cong option.case_cong if_cong)

lemma try_body_no_terminate:
  "filter is_terminate (snd (snd (snd (try_body w)))) = []"
  using attempts_trace_clean[of w _ _ 3 1]
  by (simp add: try_body_def after_def Let_def split: sum.splits option.splits)

lemma try_body_session:
  "\<not> (AIRTOP_API_KEY w = [] \<or> AIRTOP_API_KEY w = ''AIRTOP_API_KEY'') \<Longrightarrow>
     (case try_body w of (client, session_id, r) \<Rightarrow>
        (if client then session_id else None)) = obtained_session_id w"
  by (simp add: try_body_def obtained_session_id_def Let_def split: sum.splits option.splits)

lemma fetch_terminations:
  "filter is_terminate (snd (fetch_occupancy_from_cloudbeds w)) =
     (case obtained_session_id w of None \<Rightarrow> [] | Some sid \<Rightarrow> [Sessions_terminate sid])"
proof (cases "AIRTOP_API_KEY w = [] \<or> AIRTOP_API_KEY w = ''AIRTOP_API_KEY''")
  case True
  then show ?thesis
    by (simp add: fetch_occupancy_from_cloudbeds_def obtained_session_id_def)
next
  case False
  obtain client session_id r evs where t: "try_body w = (client, session_id, r, evs)"
    by (cases "try_body w") auto
  from try_body_no_terminate[of w] t have e: "filter is_terminate evs = []" by simp
  from try_body_session[OF False] t
  have o: "obtained_session_id w = (if client then session_id else None)" by simp
  show ?thesis
    using False
    by (auto simp: fetch_occupancy_from_cloudbeds_def t e o except_clauses_quiet
        finally_clause_def split: option.splits)
qed

lemma fetch_last_event_when_terminate_fails:
  assumes "obtained_session_id w = Some sid" "sessions_terminate w = Some e"
  shows "last (snd (fetch_occupancy_from_cloudbeds w)) = Log WARNING (Error_terminating_session e)"
proof -
  have k: "\<not> (AIRTOP_API_KEY w = [] \<or> AIRTOP_API_KEY w = ''AIRTOP_API_KEY'')"
    using assms(1) by (auto simp: obtained_session_id_def split: if_splits)
  obtain client session_id r evs where t: "try_body w = (client, session_id, r, evs)"
    by (cases "try_body w") auto
  from try_body_session[OF k] t assms(1)
  have o: "client" "session_id = Some sid" by (auto split: if_splits)
  show ?thesis
    using k by (simp add: fetch_occupancy_from_cloudbeds_def t o finally_clause_def assms(2))
qed

lemma fetch_outcome_frame:
  "fst (fetch_occupancy_from_cloudbeds (w\<lparr>sessions_terminate := x\<rparr>)) =
     fst (fetch_occupancy_from_cloudbeds w)"
  by (simp add: fetch_occupancy_from_cloudbeds_def try_body_frame AIRTOP_API_KEY_def getenv_def
      split: prod.splits)

text \<open>
  Claim C7 as stated fails: when the session request itself raises, the extraction raises
  and never asks for a termination.
\<close>

theorem no_termination_without_a_session:
  "fst (fetch_occupancy_from_cloudbeds world_no_session) = Inl (ApiError 503 ''Service Unavailable'')
     \<and> filter is_terminate (snd (fetch_occupancy_from_cloudbeds world_no_session)) = []"
  by (simp add: world_no_session_def example_world_def AIRTOP_API_KEY_def getenv_def
      fetch_occupancy_from_cloudbeds_def try_body_def finally_clause_def)

text \<open>
  Claim C7, amended. The termination of the session is requested exactly once on every
  exit of the extraction that holds a session id (a reading, the no-data outcome or an
  exception raised after the session was created) and not at all when no session id was
  obtained. What the termination request does never changes the outcome of the extraction,
  and its failure is the last thing logged, as a warning.
\<close>

theorem session_terminated_once_when_obtained:
  "filter is_terminate (snd (fetch_occupancy_from_cloudbeds w)) =
       (case obtained_session_id w of None \<Rightarrow> [] | Some sid \<Rightarrow> [Sessions_terminate sid])
     \<and> fst (fetch_occupancy_from_cloudbeds (w\<lparr>sessions_terminate := x\<rparr>)) =
         fst (fetch_occupancy_from_cloudbeds w)
     \<and> (obtained_session_id w = Some sid \<and> sessions_terminate w = Some e \<longrightarrow>
          last (snd (fetch_occupancy_from_cloudbeds w)) = Log WARNING (Error_terminating_session e))"
  using fetch_terminations[of w] fetch_outcome_frame[where w = w and x = x]
    fetch_last_event_when_terminate_fails[of w sid e]
  by blast

theorem session_terminated_once_when_obtained_witness:
  "filter is_terminate (snd (fetch_occupancy_from_cloudbeds world_terminate_fails)) =
       [Sessions_terminate ''session-1'']
     \<and> fst (fetch_occupancy_from_cloudbeds (world_terminate_fails\<lparr>sessions_terminate := None\<rparr>)) =
         fst (fetch_occupancy_from_cloudbeds world_terminate_fails)
     \<and> last (snd (fetch_occupancy_from_cloudbeds world_terminate_fails)) =
         Log WARNING (Error_terminating_session (OtherException ''connection reset''))"
proof -
  have o: "obtained_session_id world_terminate_fails = Some ''session-1''"
    by (simp add: world_terminate_fails_def scenario_B_def example_world_def
        obtained_session_id_def AIRTOP_API_KEY_def getenv_def)
  have t: "sessions_terminate world_terminate_fails = Some (OtherException ''connection reset'')"
    by (simp add: world_terminate_fails_def)
  from session_terminated_once_when_obtained
         [where w = world_terminate_fails and x = None and sid = "''session-1''"
            and e = "OtherException ''connection reset''"]
    o t
  show ?thesis by simp
qed

section \<open>The backend update\<close>

text \<open>
  A value the body cannot carry makes the call of \<^verbatim>\<open>requests.patch\<close> raise before anything
  is sent, whatever the backend would answer.
\<close>

lemma update_airtable_refuses_nan:
  "update_airtable scenario_A nan_reading =
     (Inl InvalidJSONError,
      [Log INFO (Updating_Airtable (PDict (airtable_fields nan_reading))),
       Requests_patch airtable_url (airtable_headers scenario_A) (airtable_payload nan_reading)])"
  by (simp add: scenario_A_def example_world_def update_airtable_def AIRTABLE_API_KEY_def
      getenv_def after_def requests_patch_def airtable_payload_def airtable_fields_def
      dict_get_def nan_reading_def)

text \<open>
  Claim C9 as stated fails: a response with status 304 is not a success status, and the
  updater returns without raising.
\<close>

theorem not_modified_response_does_not_raise:
  "requests_patch world_not_modified (airtable_payload reading) =
       Inr \<lparr>status_code = 304, text_body = []\<rparr>
     \<and> fst (update_airtable world_not_modified reading) = Inr ()"
  by (simp add: world_not_modified_def scenario_A_def example_world_def update_airtable_def
      AIRTABLE_API_KEY_def getenv_def raise_for_status_def after_def requests_patch_def
      airtable_payload_def airtable_fields_def dict_get_def reading_def)

text \<open>
  Claim C9, amended. With the Airtable key configured and a response to the \<^verbatim>\<open>PATCH\<close>
  (the body was serialised and the exchange gave a response),
  the updater raises exactly when the status code is from 400 to 599: it then sends the one
  request, logs the error with the body of the response and raises that error; for every
  other status code, the success codes among them, it sends the one request and returns.
\<close>

theorem update_raises_iff_status_is_an_error:
  assumes "AIRTABLE_API_KEY w \<noteq> []" and "AIRTABLE_API_KEY w \<noteq> ''YOUR_AIRTABLE_API_KEY''"
    and "requests_patch w (airtable_payload d) = Inr resp"
  shows "update_airtable w d =
     (if 400 \<le> status_code resp \<and> status_code resp < 600 then
        (Inl (RequestsHTTPError (status_code resp)),
         [Log INFO (Updating_Airtable (PDict (airtable_fields d))),
          Requests_patch airtable_url (airtable_headers w) (airtable_payload d),
          Log ERROR (Error_updating_Airtable (RequestsHTTPError (status_code resp)) (text_body resp))])
      else
        (Inr (),
         [Log INFO (Updating_Airtable (PDict (airtable_fields d))),
          Requests_patch airtable_url (airtable_headers w) (airtable_payload d),
          Log INFO Airtable_update_OK]))"
  using assms by (simp add: update_airtable_def raise_for_status_def after_def)

theorem update_raises_iff_status_is_an_error_witness:
  \<open>update_airtable world_unprocessable reading =
       (Inl (RequestsHTTPError 422),
        [Log INFO (Updating_Airtable (PDict (airtable_fields reading))),
         Requests_patch airtable_url (airtable_headers world_unprocessable) (airtable_payload reading),
         Log ERROR (Error_updating_Airtable (RequestsHTTPError 422)
                      ''{"error":"INVALID_VALUE_FOR_COLUMN"}'')])
     \<and> update_airtable scenario_A reading =
         (Inr (),
          [Log INFO (Updating_Airtable (PDict (airtable_fields reading))),
           Requests_patch airtable_url (airtable_headers scenario_A) (airtable_payload reading),
           Log INFO Airtable_update_OK])\<close>
proof -
  have k: "AIRTABLE_API_KEY world_unprocessable \<noteq> []"
    "AIRTABLE_API_KEY world_unprocessable \<noteq> ''YOUR_AIRTABLE_API_KEY''"
    "AIRTABLE_API_KEY scenario_A \<noteq> []"
    "AIRTABLE_API_KEY scenario_A \<noteq> ''YOUR_AIRTABLE_API_KEY''"
    by (simp_all add: world_unprocessable_def scenario_A_def example_world_def
        AIRTABLE_API_KEY_def getenv_def)
  have r: \<open>requests_patch world_unprocessable (airtable_payload reading) =
        Inr \<lparr>status_code = 422, text_body = ''{"error":"INVALID_VALUE_FOR_COLUMN"}''\<rparr>\<close>
    "requests_patch scenario_A (airtable_payload reading) =
        Inr \<lparr>status_code = 200, text_body = ''{}''\<rparr>"
    by (simp_all add: world_unprocessable_def scenario_A_def example_world_def
        requests_patch_def airtable_payload_def airtable_fields_def dict_get_def reading_def)
  from update_raises_iff_status_is_an_error[OF k(1,2) r(1)]
    update_raises_iff_status_is_an_error[OF k(3,4) r(2)]
  show ?thesis by simp
qed

text \<open>
  Claim C10. For every dictionary the \<open>fields\<close> object has the four Airtable field names
  and nothing else, each with the value of its key in the dictionary or \<^verbatim>\<open>None\<close> when the
  key is absent, and the body of the request is that object under \<^verbatim>\<open>fields\<close>. What the
  updater does and whether it raises depends on the dictionary through these four looked-up
  values only: two dictionaries that give the same \<open>fields\<close> object, whatever further keys
  one has and whichever of the four keys one lacks, give the same outcome and the same
  trace.
\<close>

theorem payload_has_exactly_the_four_fields:
  "map fst (airtable_fields d) =
       [''Available Units'', ''Booked Units'', ''Out of Service'', ''Blocked Dates'']
     \<and> map snd (airtable_fields d) =
         map (\<lambda>k. case map_of d k of None \<Rightarrow> PNone | Some v \<Rightarrow> v)
           [''available_units'', ''booked_units'', ''out_of_service'', ''blocked_dates'']
     \<and> airtable_payload d = PDict [(''fields'', PDict (airtable_fields d))]
     \<and> filter is_patch (snd (update_airtable w d)) =
         (if AIRTABLE_API_KEY w = [] \<or> AIRTABLE_API_KEY w = ''YOUR_AIRTABLE_API_KEY'' then []
          else [Requests_patch airtable_url (airtable_headers w) (airtable_payload d)])
     \<and> (airtable_fields d = airtable_fields d' \<longrightarrow> update_airtable w d = update_airtable w d')"
proof -
  have p: "filter is_patch (snd (update_airtable w d)) =
         (if AIRTABLE_API_KEY w = [] \<or> AIRTABLE_API_KEY w = ''YOUR_AIRTABLE_API_KEY'' then []
          else [Requests_patch airtable_url (airtable_headers w) (airtable_payload d)])"
    using update_airtable_patches[of w d] by (auto simp: update_airtable_def)
  have o: "update_airtable w d = update_airtable w d'"
    if "airtable_fields d = airtable_fields d'"
    using that by (simp add: update_airtable_def airtable_payload_def)
  have f: "map fst (airtable_fields d) =
       [''Available Units'', ''Booked Units'', ''Out of Service'', ''Blocked Dates'']"
    "map snd (airtable_fields d) =
         map (\<lambda>k. case map_of d k of None \<Rightarrow> PNone | Some v \<Rightarrow> v)
           [''available_units'', ''booked_units'', ''out_of_service'', ''blocked_dates'']"
    "airtable_payload d = PDict [(''fields'', PDict (airtable_fields d))]"
    by (simp_all add: airtable_fields_def airtable_payload_def dict_get_def FIELD_AVAILABLE_def
        FIELD_BOOKED_def FIELD_OOS_def FIELD_BLOCKED_def)
  from f p o show ?thesis by blast
qed

theorem payload_has_exactly_the_four_fields_witness:
  "airtable_fields [(''booked_units'', PInt 8), (''occupancy'', PStr ''28.57%'')] =
       [(''Available Units'', PNone), (''Booked Units'', PInt 8),
        (''Out of Service'', PNone), (''Blocked Dates'', PNone)]
     \<and> update_airtable scenario_A [(''booked_units'', PInt 8), (''occupancy'', PStr ''28.57%'')] =
         update_airtable scenario_A
           [(''available_units'', PNone), (''booked_units'', PInt 8),
            (''out_of_service'', PNone), (''blocked_dates'', PNone)]"
proof -
  let ?d = "[(''booked_units'', PInt 8), (''occupancy'', PStr ''28.57%'')]"
  let ?d' = "[(''available_units'', PNone), (''booked_units'', PInt 8),
              (''out_of_service'', PNone), (''blocked_dates'', PNone)]"
  note c = payload_has_exactly_the_four_fields[where d = ?d and w = scenario_A and d' = ?d']
  from c have "map fst (airtable_fields ?d) =
       [''Available Units'', ''Booked Units'', ''Out of Service'', ''Blocked Dates'']"
    "map snd (airtable_fields ?d) = [PNone, PInt 8, PNone, PNone]"
    by simp_all
  then have a: "airtable_fields ?d =
       [(''Available Units'', PNone), (''Booked Units'', PInt 8),
        (''Out of Service'', PNone), (''Blocked Dates'', PNone)]"
    by (simp add: airtable_fields_def)
  have e: "airtable_fields ?d = airtable_fields ?d'"
    by (simp add: airtable_fields_def dict_get_def)
  from c e have "update_airtable scenario_A ?d = update_airtable scenario_A ?d'"
    by blast
  with a show ?thesis by blast
qed

end
